theory Spec2Isabelle
  imports
    Main
    "HOL-Library.Char_ord"
    "HOL-Library.List_Lexorder"
    "HOL-Library.Product_Lexorder"
    "HOL-Library.Multiset"
begin

text \<open>
  A model of \<open>pkg/verify.go\<close> of kubectl-check-ownerreferences, the tool that lists the
  objects of a cluster and checks the \<open>metadata.ownerReferences\<close> of each against the
  objects found, and proofs of ten properties of it, C1 to C10.
\<close>

section \<open>Data model of pkg/verify.go\<close>

text \<open>
  Go strings are byte strings: \<open>string\<close>, compared bytewise (the orders of
  \<open>Char_ord\<close> and \<open>List_Lexorder\<close>). A Go \<open>error\<close> is kept as the text its
  \<open>Error()\<close> method returns, which is all that \<open>Run\<close> reads of one.
\<close>

type_synonym error = string
type_synonym UID = string

record GroupVersion =
  gvGroup :: string
  gvVersion :: string

record GroupKind =
  gkGroup :: string
  gkKind :: string

record GroupResource =
  grGroup :: string
  grResource :: string

record GroupVersionKind =
  gvkGroup :: string
  gvkVersion :: string
  gvkKind :: string

record GroupVersionResource =
  gvrGroup :: string
  gvrVersion :: string
  gvrResource :: string

record OwnerReference =
  refAPIVersion :: string
  refKind :: string
  refName :: string
  refUID :: UID

record PartialObjectMetadata =
  APIVersion :: string
  Kind :: string
  Namespace :: string
  Name :: string
  UID :: UID
  OwnerReferences :: "OwnerReference list"

datatype RESTScopeName = RESTScopeNameNamespace | RESTScopeNameRoot

record RESTMapping =
  mappingResource :: GroupVersionResource
  mappingScope :: RESTScopeName

text \<open>The record that the JSON sink encodes (\<open>type invalidReference struct\<close>).\<close>

record invalidReference =
  irResource :: GroupVersionResource
  irKind :: GroupVersionKind
  irNamespace :: string
  irName :: string
  irOwnerReference :: OwnerReference
  irLevel :: string
  irMessage :: string

subsection \<open>The collaborators of \<open>Run\<close>\<close>

text \<open>
  What a discovery call returns as its error: nil, an \<open>ErrGroupDiscoveryFailed\<close> with
  its \<open>Groups\<close> map (listed in the order the \<open>range\<close> loop visits it), or any other
  error.
\<close>

datatype discoveryResult =
    DiscoveryOK
  | ErrGroupDiscoveryFailed "(GroupVersion \<times> error) list"
  | DiscoveryError error

text \<open>
  What the metadata client answers to the successive page requests for one resource
  type: a failed request, the last page, or a page with a continuation.
\<close>

datatype listing =
    ListError error
  | LastPage "PartialObjectMetadata list"
  | MorePages "PartialObjectMetadata list" listing

text \<open>
  The cluster as \<open>Run\<close> sees it through \<open>v.DiscoveryClient\<close>, \<open>v.MetadataClient\<close>, the REST
  mapper built from the discovered resources, and the library functions it calls.
  None of these is code of the repository, so every theorem below holds for any of them.
  \<^item> \<open>GetAPIGroupResources\<close>: the error of \<open>restmapper.GetAPIGroupResources\<close>;
  \<^item> \<open>RESTMappingOf\<close>, \<open>KindFor\<close>: the two methods of the REST mapper that are called
    (\<open>KindFor\<close> gives the kind alone: \<open>Run\<close> drops its error);
  \<^item> \<open>ServerPreferredResources\<close>: the error of \<open>discovery.ServerPreferredResources\<close>;
  \<^item> \<open>GroupVersionResources\<close>: the result of \<open>discovery.GroupVersionResources\<close> on the
    filtered preferred resources, the keys of \<open>gvrMap\<close> in the order \<open>range\<close> visits them;
  \<^item> \<open>ListPages\<close>: the answers of \<open>v.MetadataClient.Resource(gvr).List\<close>;
  \<^item> \<open>ParseGroupVersion\<close>: \<open>schema.ParseGroupVersion\<close>, both of its results;
  \<^item> \<open>ToLower\<close>: \<open>strings.ToLower\<close>;
  \<^item> \<open>klogV\<close>: the verbosity, \<open>klog.V(n).Enabled()\<close> being \<open>n \<le> klogV\<close>.
\<close>

record cluster =
  GetAPIGroupResources :: discoveryResult
  RESTMappingOf :: "GroupKind \<Rightarrow> string \<Rightarrow> error + RESTMapping"
  KindFor :: "GroupVersionResource \<Rightarrow> GroupVersionKind"
  ServerPreferredResources :: discoveryResult
  GroupVersionResources :: "error + GroupVersionResource list"
  ListPages :: "GroupVersionResource \<Rightarrow> listing"
  ParseGroupVersion :: "string \<Rightarrow> GroupVersion \<times> error option"
  ToLower :: "string \<Rightarrow> string"
  klogV :: nat

text \<open>\<open>VerifyGCOptions\<close>: the clients are the \<open>cluster\<close>, the two writers are the \<open>report\<close>.\<close>

record VerifyGCOptions =
  Output :: string

subsection \<open>The variables of \<open>Run\<close>\<close>

text \<open>
  The maps \<open>Run\<close> fills before it validates and only reads afterwards. A lookup
  \<open>byUID[uid]\<close> of a missing key is the empty slice, so the two object indexes are total
  functions into lists; the two failure maps are tested for membership, so they are
  partial maps.
\<close>

record index =
  gvDiscoveryFailures :: "GroupVersion \<rightharpoonup> error"
  grListErrors :: "GroupResource \<rightharpoonup> error"
  byGVR :: "GroupVersionResource \<Rightarrow> PartialObjectMetadata list"
  byUID :: "UID \<Rightarrow> PartialObjectMetadata list"

text \<open>What is written to \<open>v.Stdout\<close>: the calls made on the tab writer and the JSON encoder.\<close>

datatype stdoutEvent = TabWrite string | TabFlush | JSONEncode invalidReference

text \<open>
  The counters, the \<open>initialized\<close> flag of the table, and the two streams (\<open>stderr\<close> holds
  one entry for each \<open>Fprintf\<close>). \<open>nilFuncCalled\<close> records a call of \<open>outputRefMessage\<close>
  while that variable is nil, which panics.
\<close>

record report =
  errorCount :: nat
  warningCount :: nat
  initialized :: bool
  stdout :: "stdoutEvent list"
  stderr :: "string list"
  nilFuncCalled :: bool

type_synonym refMessage =
  "report \<Rightarrow> GroupVersionResource \<Rightarrow> PartialObjectMetadata \<Rightarrow> OwnerReference \<Rightarrow> string \<Rightarrow> string \<Rightarrow> report"

datatype runError = Fatal error | NilFuncPanic

section \<open>Library functions with a fixed meaning\<close>

definition nl :: string where
  "nl = [CHR 0x0A]"

definition tab :: string where
  "tab = [CHR 0x09]"

text \<open>\<open>strings.Join\<close>.\<close>

fun join :: "string list \<Rightarrow> string \<Rightarrow> string" where
  "join [] sep = []"
| "join [x] sep = x"
| "join (x # y # ys) sep = x @ sep @ join (y # ys) sep"

text \<open>The verb \<open>%d\<close> of \<open>fmt\<close> on a count: its decimal digits.\<close>

definition digit :: "nat \<Rightarrow> char" where
  "digit d = ''0123456789'' ! d"

function itoa :: "nat \<Rightarrow> string" where
  "itoa n = (if n < 10 then [digit n] else itoa (n div 10) @ [digit (n mod 10)])"
  by pat_completeness auto
termination
  by (relation "measure id") auto

text \<open>
  The \<open>String\<close> methods of apimachinery's \<open>schema\<close> types and the projections between
  them, as the expected output of \<open>TestVerify\<close> shows them (\<open>fetching forbidden/v1, ...\<close>,
  \<open>apiVersion=v1\<close>, \<open>forbiddenresources.forbidden\<close>,
  \<open>forbidden/v1, Resource=forbiddenresources\<close>).
\<close>

definition gvString :: "GroupVersion \<Rightarrow> string" where
  "gvString gv = (if gvGroup gv \<noteq> [] then gvGroup gv @ ''/'' @ gvVersion gv else gvVersion gv)"

definition grString :: "GroupResource \<Rightarrow> string" where
  "grString gr = (if grGroup gr = [] then grResource gr else grResource gr @ ''.'' @ grGroup gr)"

definition gvrString :: "GroupVersionResource \<Rightarrow> string" where
  "gvrString gvr = join [gvrGroup gvr, ''/'', gvrVersion gvr, '', Resource='', gvrResource gvr] []"

definition gvrGroupVersion :: "GroupVersionResource \<Rightarrow> GroupVersion" where
  "gvrGroupVersion gvr = \<lparr>gvGroup = gvrGroup gvr, gvVersion = gvrVersion gvr\<rparr>"

definition gvrGroupResource :: "GroupVersionResource \<Rightarrow> GroupResource" where
  "gvrGroupResource gvr = \<lparr>grGroup = gvrGroup gvr, grResource = gvrResource gvr\<rparr>"

definition gvkGroupVersion :: "GroupVersionKind \<Rightarrow> GroupVersion" where
  "gvkGroupVersion gvk = \<lparr>gvGroup = gvkGroup gvk, gvVersion = gvkVersion gvk\<rparr>"

definition gvkGroupKind :: "GroupVersionKind \<Rightarrow> GroupKind" where
  "gvkGroupKind gvk = \<lparr>gkGroup = gvkGroup gvk, gkKind = gvkKind gvk\<rparr>"

definition gvkEmpty :: "GroupVersionKind \<Rightarrow> bool" where
  "gvkEmpty gvk = (length (gvkGroup gvk) = 0 \<and> length (gvkVersion gvk) = 0 \<and> length (gvkKind gvk) = 0)"

definition WithKind :: "GroupVersion \<Rightarrow> string \<Rightarrow> GroupVersionKind" where
  "WithKind gv kind = \<lparr>gvkGroup = gvGroup gv, gvkVersion = gvVersion gv, gvkKind = kind\<rparr>"

definition emptyGVK :: GroupVersionKind where
  "emptyGVK = \<lparr>gvkGroup = [], gvkVersion = [], gvkKind = []\<rparr>"

section \<open>pkg/verify.go\<close>

definition levelError :: string where
  "levelError = ''Error''"

definition levelWarning :: string where
  "levelWarning = ''Warning''"

text \<open>\<open>func pluralize\<close>.\<close>

definition pluralize :: "nat \<Rightarrow> string \<Rightarrow> string \<Rightarrow> string" where
  "pluralize cnt singular plural =
     (if cnt = 1 then itoa cnt @ '' '' @ singular
      else itoa cnt @ '' '' @ plural)"

text \<open>\<open>func (v *VerifyGCOptions) Validate\<close>; the clients and the writers are never nil here.\<close>

definition Validate :: "VerifyGCOptions \<Rightarrow> error option" where
  "Validate v =
     (if Output v \<noteq> [] \<and> Output v \<noteq> ''json''
      then Some (''invalid output format, only '' @ [CHR 0x27, CHR 0x27] @ '' and '' @
             [CHR 0x27] @ ''json'' @ [CHR 0x27] @ '' are supported: '' @ Output v)
      else None)"


subsection \<open>Discovery (lines 77 to 107 of \<open>Run\<close>)\<close>

text \<open>
  The body of the two loops \<open>for failedGV, err := range groupDiscoveryError.Groups\<close>:
  a group/version that is not yet in \<open>gvDiscoveryFailures\<close> is recorded, counted as a
  warning and reported on \<open>v.Stderr\<close> (the format string of this notice has no newline).
\<close>

definition noteDiscoveryFailure :: "GroupVersion \<times> error \<Rightarrow> index \<times> report \<Rightarrow> index \<times> report" where
  "noteDiscoveryFailure failure s =
     (case failure of (failedGV, err) \<Rightarrow>
      case s of (idx, rep) \<Rightarrow>
       (case gvDiscoveryFailures idx failedGV of
          Some alreadyFailed \<Rightarrow> (idx, rep)
        | None \<Rightarrow>
            (idx\<lparr>gvDiscoveryFailures := (gvDiscoveryFailures idx)(failedGV \<mapsto> err)\<rparr>,
             rep\<lparr>warningCount := warningCount rep + 1,
                 stderr := stderr rep @
                   [''warning: could not discover resources in '' @ gvString failedGV @ '': '' @ err]\<rparr>)))"

text \<open>
  \<open>if errors.As(err, &groupDiscoveryError) { ... } else if err != nil { return err }\<close>:
  partial discovery is tolerated, any other error ends \<open>Run\<close>.
\<close>

fun tolerateDiscovery :: "discoveryResult \<Rightarrow> index \<times> report \<Rightarrow> error + index \<times> report" where
  "tolerateDiscovery (ErrGroupDiscoveryFailed groups) s = Inr (fold noteDiscoveryFailure groups s)"
| "tolerateDiscovery (DiscoveryError err) s = Inl err"
| "tolerateDiscovery DiscoveryOK s = Inr s"

subsection \<open>The sorted resource types (lines 113 to 125)\<close>

text \<open>The \<open>less\<close> function handed to \<open>sort.Slice\<close>.\<close>

definition gvrLess :: "GroupVersionResource \<Rightarrow> GroupVersionResource \<Rightarrow> bool" where
  "gvrLess a b =
     (if gvrGroup a \<noteq> gvrGroup b then gvrGroup a < gvrGroup b
      else if gvrVersion a \<noteq> gvrVersion b then gvrVersion a < gvrVersion b
      else gvrResource a < gvrResource b)"

text \<open>
  \<open>sort.Slice\<close> as an insertion sort driven by \<open>less\<close>. The library does not fix the
  algorithm; the theorems below determine the result from \<open>less\<close> alone.
\<close>

fun insertSlice :: "('a \<Rightarrow> 'a \<Rightarrow> bool) \<Rightarrow> 'a \<Rightarrow> 'a list \<Rightarrow> 'a list" where
  "insertSlice lessFn x [] = [x]"
| "insertSlice lessFn x (y # ys) = (if lessFn y x then y # insertSlice lessFn x ys else x # y # ys)"

fun sortSlice :: "('a \<Rightarrow> 'a \<Rightarrow> bool) \<Rightarrow> 'a list \<Rightarrow> 'a list" where
  "sortSlice lessFn [] = []"
| "sortSlice lessFn (x # xs) = insertSlice lessFn x (sortSlice lessFn xs)"

definition sortedGVRs :: "GroupVersionResource list \<Rightarrow> GroupVersionResource list" where
  "sortedGVRs gvrMap = sortSlice gvrLess gvrMap"

subsection \<open>Fetching (lines 127 to 163)\<close>

text \<open>
  The function handed to \<open>EachListItem\<close>, called on every item of a retrieved page: an
  item without apiVersion and kind takes them from \<open>gvk\<close>, and is appended to its UID
  bucket and to the list of its resource type. (The items of a metadata list are
  \<open>PartialObjectMetadata\<close>, so the type assertion of line 151 holds.)
\<close>

definition fillIn :: "GroupVersionKind \<Rightarrow> PartialObjectMetadata \<Rightarrow> PartialObjectMetadata" where
  "fillIn gvk item =
     (if APIVersion item = [] \<and> Kind item = [] \<and> \<not> gvkEmpty gvk
      then item\<lparr>APIVersion := gvString (gvkGroupVersion gvk), Kind := gvkKind gvk\<rparr>
      else item)"

definition addItem :: "GroupVersionResource \<Rightarrow> GroupVersionKind \<Rightarrow> index \<Rightarrow> PartialObjectMetadata \<Rightarrow> index" where
  "addItem gvr gvk idx object =
     (let item = fillIn gvk object in
      idx\<lparr>byUID := (byUID idx)(UID item := byUID idx (UID item) @ [item]),
          byGVR := (byGVR idx)(gvr := byGVR idx gvr @ [item])\<rparr>)"

text \<open>The page function handed to \<open>pager.New\<close>, on a failed and on a successful request.\<close>

definition listFailed :: "GroupVersionResource \<Rightarrow> error \<Rightarrow> index \<times> report \<Rightarrow> index \<times> report" where
  "listFailed gvr err s =
     (case s of (idx, rep) \<Rightarrow>
       (idx\<lparr>grListErrors := (grListErrors idx)(gvrGroupResource gvr \<mapsto> err)\<rparr>,
        rep\<lparr>warningCount := warningCount rep + 1,
            stderr := stderr rep @ [''warning: could not list '' @ gvrString gvr @ '': '' @ err @ nl]\<rparr>))"

definition listed :: "cluster \<Rightarrow> PartialObjectMetadata list \<Rightarrow> report \<Rightarrow> report" where
  "listed env items rep =
     (if 3 \<le> klogV env
      then rep\<lparr>stderr := stderr rep @ [''got '' @ pluralize (length items) ''item'' ''items'' @ nl]\<rparr>
      else rep)"

text \<open>
  \<open>pager.New(...).EachListItem(...)\<close> of client-go, which is not code of the repository:
  it calls the page function until a request fails or a page has no continuation, and
  hands every item of every page it retrieved to the item function. \<open>Run\<close> drops the
  error it returns.
\<close>

fun eachListItem :: "cluster \<Rightarrow> GroupVersionResource \<Rightarrow> GroupVersionKind \<Rightarrow> listing \<Rightarrow> index \<times> report \<Rightarrow> index \<times> report" where
  "eachListItem env gvr gvk (ListError err) s = listFailed gvr err s"
| "eachListItem env gvr gvk (LastPage items) s =
     (case s of (idx, rep) \<Rightarrow> (foldl (addItem gvr gvk) idx items, listed env items rep))"
| "eachListItem env gvr gvk (MorePages items rest) s =
     (case s of (idx, rep) \<Rightarrow>
        eachListItem env gvr gvk rest (foldl (addItem gvr gvk) idx items, listed env items rep))"

text \<open>The body of the loop \<open>for _, gvr := range gvrs\<close> that fetches.\<close>

definition fetch :: "cluster \<Rightarrow> GroupVersionResource \<Rightarrow> index \<times> report \<Rightarrow> index \<times> report" where
  "fetch env gvr s =
     (case s of (idx, rep) \<Rightarrow>
      let gvk = KindFor env gvr;
          rep' = (if 2 \<le> klogV env
                  then rep\<lparr>stderr := stderr rep @
                         [''fetching '' @ gvString (gvrGroupVersion gvr) @ '', '' @ gvrResource gvr @ nl]\<rparr>
                  else rep)
      in eachListItem env gvr gvk (ListPages env gvr) (idx, rep'))"

definition fetchAll :: "cluster \<Rightarrow> GroupVersionResource list \<Rightarrow> index \<times> report \<Rightarrow> index \<times> report" where
  "fetchAll env gvrs s = fold (fetch env) gvrs s"


subsection \<open>The two sinks (lines 165 to 197)\<close>

definition tableHeader :: string where
  "tableHeader =
     join [''GROUP'', ''RESOURCE'', ''NAMESPACE'', ''NAME'', ''OWNER_UID'', ''LEVEL'', ''MESSAGE''] tab @ nl"

text \<open>The closure assigned to \<open>outputRefMessage\<close> when \<open>v.Output == ""\<close>.\<close>

definition tableRefMessage :: refMessage where
  "tableRefMessage rep gvr item ownerRef level msg =
     (let rep1 = (if level = levelError
                  then rep\<lparr>errorCount := errorCount rep + 1\<rparr>
                  else rep\<lparr>warningCount := warningCount rep + 1\<rparr>);
          rep2 = (if \<not> initialized rep1
                  then rep1\<lparr>initialized := True, stdout := stdout rep1 @ [TabWrite tableHeader]\<rparr>
                  else rep1)
      in rep2\<lparr>stdout := stdout rep2 @
           [TabWrite (join [gvrGroup gvr, gvrResource gvr, Namespace item, Name item,
                            refUID ownerRef, level, msg] tab @ nl)]\<rparr>)"

text \<open>The closure assigned to \<open>outputRefMessage\<close> when \<open>v.Output == "json"\<close>.\<close>

definition jsonRefMessage :: refMessage where
  "jsonRefMessage rep gvr item ownerRef level msg =
     rep\<lparr>stdout := stdout rep @
       [JSONEncode \<lparr>irResource = \<lparr>gvrGroup = gvrGroup gvr, gvrVersion = gvrVersion gvr,
                                    gvrResource = gvrResource gvr\<rparr>,
                    irKind = \<lparr>gvkGroup = gvrGroup gvr, gvkVersion = gvrVersion gvr,
                                gvkKind = Kind item\<rparr>,
                    irNamespace = Namespace item,
                    irName = Name item,
                    irOwnerReference = ownerRef,
                    irLevel = level,
                    irMessage = msg\<rparr>]\<rparr>"

text \<open>A call of \<open>outputRefMessage\<close> while the variable is still nil.\<close>

definition nilRefMessage :: refMessage where
  "nilRefMessage rep gvr item ownerRef level msg = rep\<lparr>nilFuncCalled := True\<rparr>"

text \<open>\<open>var outputRefMessage\<close> after the \<open>if v.Output == "" ... else if v.Output == "json"\<close>.\<close>

definition outputRefMessage :: "VerifyGCOptions \<Rightarrow> refMessage" where
  "outputRefMessage v =
     (if Output v = [] then tableRefMessage
      else if Output v = ''json'' then jsonRefMessage
      else nilRefMessage)"

subsection \<open>Validation (lines 199 to 296)\<close>

text \<open>The six variables of lines 241 to 250.\<close>

record ownerCheck =
  namespaceOk :: bool
  actualNamespace :: string
  nameOk :: bool
  actualName :: string
  groupKindOk :: bool
  actualGVK :: GroupVersionKind

definition ownerCheckInit :: ownerCheck where
  "ownerCheckInit =
     \<lparr>namespaceOk = False, actualNamespace = [], nameOk = False, actualName = [],
      groupKindOk = False, actualGVK = emptyGVK\<rparr>"

text \<open>The body of the loop \<open>for _, actualOwner := range actualOwners\<close> (lines 252 to 277).\<close>

definition compareOwner ::
  "cluster \<Rightarrow> PartialObjectMetadata \<Rightarrow> OwnerReference \<Rightarrow> GroupVersion \<Rightarrow> ownerCheck \<Rightarrow> PartialObjectMetadata \<Rightarrow> ownerCheck" where
  "compareOwner env child ownerRef ownerGV c actualOwner =
     (let c1 = (if Name actualOwner = refName ownerRef
                then c\<lparr>nameOk := True\<rparr>
                else c\<lparr>actualName := Name actualOwner\<rparr>);
          c2 = (if Namespace actualOwner = [] \<or> Namespace actualOwner = Namespace child
                then c1\<lparr>namespaceOk := True\<rparr>
                else c1\<lparr>actualNamespace := Namespace actualOwner\<rparr>)
      in if APIVersion actualOwner = [] \<or> Kind actualOwner = []
         then c2\<lparr>groupKindOk := True\<rparr>
         else
           (let actualOwnerGV = fst (ParseGroupVersion env (APIVersion actualOwner)) in
            if Kind actualOwner = refKind ownerRef \<and> gvGroup actualOwnerGV = gvGroup ownerGV
            then c2\<lparr>groupKindOk := True\<rparr>
            else if ToLower env (Kind actualOwner) = refKind ownerRef \<and>
                    gvGroup actualOwnerGV = gvGroup ownerGV
            then c2\<lparr>groupKindOk := True\<rparr>
            else c2\<lparr>actualGVK := WithKind actualOwnerGV (Kind actualOwner)\<rparr>))"

text \<open>
  Lines 241 to 291: the candidates of the UID bucket are compared, then at most one
  mismatch is reported.
\<close>

definition checkActualOwners ::
  "refMessage \<Rightarrow> cluster \<Rightarrow> GroupVersionResource \<Rightarrow> PartialObjectMetadata \<Rightarrow> OwnerReference \<Rightarrow> GroupVersion \<Rightarrow>
   PartialObjectMetadata list \<Rightarrow> report \<Rightarrow> report" where
  "checkActualOwners refMessage env gvr child ownerRef ownerGV actualOwners rep =
     (let c = foldl (compareOwner env child ownerRef ownerGV) ownerCheckInit actualOwners in
      if \<not> namespaceOk c
      then refMessage rep gvr child ownerRef levelError
             (''child namespace does not match owner namespace ('' @ actualNamespace c @ '')'')
      else if \<not> nameOk c
      then refMessage rep gvr child ownerRef levelError
             (''ownerReference name ('' @ refName ownerRef @ '') does not match owner name ('' @
              actualName c @ '')'')
      else if \<not> groupKindOk c
      then refMessage rep gvr child ownerRef levelError
             (''ownerReference group/kind ('' @ gvGroup ownerGV @ ''/'' @ refKind ownerRef @
              '') does not match owner group/kind ('' @ gvkGroup (actualGVK c) @ ''/'' @
              gvkKind (actualGVK c) @ '')'')
      else rep)"

text \<open>
  The body of the loop \<open>for _, ownerRef := range child.OwnerReferences\<close> (lines 205 to
  291); every \<open>continue\<close> ends it.
\<close>

definition checkOwnerRef ::
  "refMessage \<Rightarrow> cluster \<Rightarrow> index \<Rightarrow> GroupVersionResource \<Rightarrow> PartialObjectMetadata \<Rightarrow> OwnerReference \<Rightarrow>
   report \<Rightarrow> report" where
  "checkOwnerRef refMessage env idx gvr child ownerRef rep =
     (case ParseGroupVersion env (refAPIVersion ownerRef) of
        (ownerGV, Some err) \<Rightarrow>
          refMessage rep gvr child ownerRef levelError
            (''invalid owner apiVersion '' @ refAPIVersion ownerRef @ '': '' @ err)
      | (ownerGV, None) \<Rightarrow>
          (let ownerGVK = WithKind ownerGV (refKind ownerRef) in
           case RESTMappingOf env (gvkGroupKind ownerGVK) (gvkVersion ownerGVK) of
             Inl err \<Rightarrow>
               (case gvDiscoveryFailures idx ownerGV of
                  Some discoveryErr \<Rightarrow>
                    refMessage rep gvr child ownerRef levelWarning
                      (''failed resolving resources for '' @ refAPIVersion ownerRef @ '': '' @
                       discoveryErr)
                | None \<Rightarrow>
                    refMessage rep gvr child ownerRef levelError
                      (''cannot resolve owner apiVersion/kind: '' @ err))
           | Inr mapping \<Rightarrow>
               (let ownerGR = gvrGroupResource (mappingResource mapping) in
                if mappingScope mapping = RESTScopeNameNamespace \<and> Namespace child = []
                then refMessage rep gvr child ownerRef levelError
                       (''cannot reference namespaced type as owner (apiVersion='' @
                        gvString (gvkGroupVersion ownerGVK) @ '',kind='' @ gvkKind ownerGVK @ '')'')
                else
                  (let actualOwners = byUID idx (refUID ownerRef) in
                   if length actualOwners = 0
                   then (case grListErrors idx ownerGR of
                           Some listErr \<Rightarrow>
                             refMessage rep gvr child ownerRef levelWarning
                               (''could not list parent resource '' @ grString ownerGR)
                         | None \<Rightarrow>
                             refMessage rep gvr child ownerRef levelError ''no object found for uid'')
                   else checkActualOwners refMessage env gvr child ownerRef ownerGV actualOwners rep))))"

text \<open>The loops over the owner references of a child and over the items of a type.\<close>

definition checkChild ::
  "refMessage \<Rightarrow> cluster \<Rightarrow> index \<Rightarrow> GroupVersionResource \<Rightarrow> report \<Rightarrow> PartialObjectMetadata \<Rightarrow> report" where
  "checkChild refMessage env idx gvr rep child =
     foldl (\<lambda>r ownerRef. checkOwnerRef refMessage env idx gvr child ownerRef r) rep (OwnerReferences child)"

text \<open>\<open>tabwriter.Flush()\<close>.\<close>

definition flush :: "report \<Rightarrow> report" where
  "flush rep = rep\<lparr>stdout := stdout rep @ [TabFlush]\<rparr>"

definition checkType ::
  "refMessage \<Rightarrow> cluster \<Rightarrow> index \<Rightarrow> report \<Rightarrow> GroupVersionResource \<Rightarrow> report" where
  "checkType refMessage env idx rep gvr =
     flush (foldl (checkChild refMessage env idx gvr) rep (byGVR idx gvr))"

definition checkAll ::
  "refMessage \<Rightarrow> cluster \<Rightarrow> index \<Rightarrow> GroupVersionResource list \<Rightarrow> report \<Rightarrow> report" where
  "checkAll refMessage env idx gvrs rep = foldl (checkType refMessage env idx) rep gvrs"

subsection \<open>The summary (lines 298 to 302) and \<open>Run\<close>\<close>

definition summary :: "report \<Rightarrow> string" where
  "summary rep =
     (if errorCount rep > 0 \<or> warningCount rep > 0
      then pluralize (errorCount rep) ''error'' ''errors'' @ '', '' @
           pluralize (warningCount rep) ''warning'' ''warnings'' @ nl
      else ''No invalid ownerReferences found'' @ nl)"

definition emptyIndex :: index where
  "emptyIndex =
     \<lparr>gvDiscoveryFailures = Map.empty, grListErrors = Map.empty,
      byGVR = (\<lambda>gvr. []), byUID = (\<lambda>uid. [])\<rparr>"

definition emptyReport :: report where
  "emptyReport =
     \<lparr>errorCount = 0, warningCount = 0, initialized = False, stdout = [], stderr = [],
      nilFuncCalled = False\<rparr>"

text \<open>
  Lines 77 to 107: the two discovery calls, each followed by the same handling of its
  error.
\<close>

definition discover :: "cluster \<Rightarrow> error + index \<times> report" where
  "discover env =
     (case tolerateDiscovery (GetAPIGroupResources env) (emptyIndex, emptyReport) of
        Inl err \<Rightarrow> Inl err
      | Inr s \<Rightarrow> tolerateDiscovery (ServerPreferredResources env) s)"

text \<open>
  \<open>func (v *VerifyGCOptions) Run\<close>. It returns the error of \<open>Run\<close>, or the variables and
  the two streams as they are when \<open>Run\<close> returns nil.
\<close>

definition Run :: "cluster \<Rightarrow> VerifyGCOptions \<Rightarrow> runError + index \<times> report" where
  "Run env v =
     (case discover env of
        Inl err \<Rightarrow> Inl (Fatal err)
      | Inr s \<Rightarrow>
     (case GroupVersionResources env of
        Inl err \<Rightarrow> Inl (Fatal err)
      | Inr gvrMap \<Rightarrow>
          (let gvrs = sortedGVRs gvrMap;
               (idx, rep) = fetchAll env gvrs s;
               rep' = checkAll (outputRefMessage v) env idx gvrs rep
           in if nilFuncCalled rep' then Inl NilFuncPanic
              else Inr (idx, rep'\<lparr>stderr := stderr rep' @ [summary rep']\<rparr>))))"

section \<open>A cluster to run on, after \<open>TestVerify\<close>\<close>

text \<open>
  Concrete collaborators, used where a theorem is applied to an input. The parser is
  apimachinery's \<open>schema.ParseGroupVersion\<close>: the empty string and \<open>/\<close> give the empty
  group/version, \<open>v\<close> gives the version \<open>v\<close> of the empty group, \<open>g/v\<close> gives group and
  version, and more than one \<open>/\<close> is an error.
\<close>

fun splitSlash :: "string \<Rightarrow> string list" where
  "splitSlash [] = [[]]"
| "splitSlash (c # cs) =
     (if c = CHR ''/'' then [] # splitSlash cs
      else (case splitSlash cs of [] \<Rightarrow> [[c]] | p # ps \<Rightarrow> (c # p) # ps))"

definition fakeParseGroupVersion :: "string \<Rightarrow> GroupVersion \<times> error option" where
  "fakeParseGroupVersion gv =
     (if length gv = 0 \<or> gv = ''/'' then (\<lparr>gvGroup = [], gvVersion = []\<rparr>, None)
      else (case splitSlash gv of
              [version] \<Rightarrow> (\<lparr>gvGroup = [], gvVersion = version\<rparr>, None)
            | [g, version] \<Rightarrow> (\<lparr>gvGroup = g, gvVersion = version\<rparr>, None)
            | _ \<Rightarrow> (\<lparr>gvGroup = [], gvVersion = []\<rparr>, Some (''unexpected GroupVersion string: '' @ gv))))"

definition asciiToLower :: "string \<Rightarrow> string" where
  "asciiToLower s =
     map (\<lambda>c. if CHR ''A'' \<le> c \<and> c \<le> CHR ''Z'' then char_of (of_char c + (32::nat)) else c) s"

text \<open>One \<open>metav1.APIResource\<close> of the fake discovery client, with its group/version.\<close>

record apiResource =
  arGroupVersion :: GroupVersion
  arName :: string
  arNamespaced :: bool
  arKind :: string

definition arGVR :: "apiResource \<Rightarrow> GroupVersionResource" where
  "arGVR r =
     \<lparr>gvrGroup = gvGroup (arGroupVersion r), gvrVersion = gvVersion (arGroupVersion r),
      gvrResource = arName r\<rparr>"

definition fakeRESTMapping :: "apiResource list \<Rightarrow> GroupKind \<Rightarrow> string \<Rightarrow> error + RESTMapping" where
  "fakeRESTMapping rs gk version =
     (case find (\<lambda>r. gvGroup (arGroupVersion r) = gkGroup gk \<and> arKind r = gkKind gk \<and>
                      gvVersion (arGroupVersion r) = version) rs of
        Some r \<Rightarrow>
          Inr \<lparr>mappingResource = arGVR r,
               mappingScope = (if arNamespaced r then RESTScopeNameNamespace else RESTScopeNameRoot)\<rparr>
      | None \<Rightarrow>
          Inl (''no matches for kind '' @ [CHR 0x22] @ gkKind gk @ [CHR 0x22] @ '' in version '' @
               [CHR 0x22] @ gvString \<lparr>gvGroup = gkGroup gk, gvVersion = version\<rparr> @ [CHR 0x22]))"

definition fakeKindFor :: "apiResource list \<Rightarrow> GroupVersionResource \<Rightarrow> GroupVersionKind" where
  "fakeKindFor rs gvr =
     (case find (\<lambda>r. arGVR r = gvr) rs of
        Some r \<Rightarrow> WithKind (arGroupVersion r) (arKind r)
      | None \<Rightarrow> emptyGVK)"

definition testCluster :: "apiResource list \<Rightarrow> (GroupVersionResource \<Rightarrow> listing) \<Rightarrow> cluster" where
  "testCluster rs pages =
     \<lparr>GetAPIGroupResources = DiscoveryOK,
      RESTMappingOf = fakeRESTMapping rs,
      KindFor = fakeKindFor rs,
      ServerPreferredResources = DiscoveryOK,
      GroupVersionResources = Inr (map arGVR rs),
      ListPages = pages,
      ParseGroupVersion = fakeParseGroupVersion,
      ToLower = asciiToLower,
      klogV = 3\<rparr>"

definition v1 :: GroupVersion where
  "v1 = \<lparr>gvGroup = [], gvVersion = ''v1''\<rparr>"

definition v1Resources :: "apiResource list" where
  "v1Resources =
     [\<lparr>arGroupVersion = v1, arName = ''nodes'', arNamespaced = False, arKind = ''Node''\<rparr>,
      \<lparr>arGroupVersion = v1, arName = ''pods'', arNamespaced = True, arKind = ''Pod''\<rparr>]"

definition nodes :: GroupVersionResource where
  "nodes = \<lparr>gvrGroup = [], gvrVersion = ''v1'', gvrResource = ''nodes''\<rparr>"

definition pods :: GroupVersionResource where
  "pods = \<lparr>gvrGroup = [], gvrVersion = ''v1'', gvrResource = ''pods''\<rparr>"

definition node1 :: PartialObjectMetadata where
  "node1 =
     \<lparr>APIVersion = ''v1'', Kind = ''Node'', Namespace = [], Name = ''node1'', UID = ''node1uid'',
      OwnerReferences = []\<rparr>"

definition node1Ref :: OwnerReference where
  "node1Ref = \<lparr>refAPIVersion = ''v1'', refKind = ''Node'', refName = ''node1'', refUID = ''node1uid''\<rparr>"

definition pod1 :: "OwnerReference list \<Rightarrow> PartialObjectMetadata" where
  "pod1 owners =
     \<lparr>APIVersion = ''v1'', Kind = ''Pod'', Namespace = ''ns1'', Name = ''pod1'', UID = ''poduid1'',
      OwnerReferences = owners\<rparr>"

text \<open>The test case \<open>forbidden\<close>: a second group whose resources cannot be listed.\<close>

definition forbiddenResources :: "apiResource list" where
  "forbiddenResources =
     v1Resources @
     [\<lparr>arGroupVersion = \<lparr>gvGroup = ''forbidden'', gvVersion = ''v1''\<rparr>,
       arName = ''forbiddenresources'', arNamespaced = True, arKind = ''ForbiddenKind''\<rparr>]"

definition forbiddenRef :: OwnerReference where
  "forbiddenRef =
     \<lparr>refAPIVersion = ''forbidden/v1'', refKind = ''ForbiddenKind'', refName = ''forbiddenparent'',
      refUID = ''forbiddenparentuid''\<rparr>"

definition forbiddenPages :: "GroupVersionResource \<Rightarrow> listing" where
  "forbiddenPages gvr =
     (if gvr = nodes then LastPage [node1]
      else if gvr = pods then LastPage [pod1 [node1Ref, forbiddenRef]]
      else ListError ''forbiddenresources is forbidden: not authorized'')"

definition forbiddenCluster :: cluster where
  "forbiddenCluster = testCluster forbiddenResources forbiddenPages"


text \<open>The test case \<open>forbidden\<close> with discovery failing for its group in both calls.\<close>

definition forbiddenGV :: GroupVersion where
  "forbiddenGV = \<lparr>gvGroup = ''forbidden'', gvVersion = ''v1''\<rparr>"

definition undiscoveredCluster :: cluster where
  "undiscoveredCluster =
     forbiddenCluster
       \<lparr>GetAPIGroupResources := ErrGroupDiscoveryFailed [(forbiddenGV, ''first'')],
        ServerPreferredResources := ErrGroupDiscoveryFailed [(v1, ''other''), (forbiddenGV, ''second'')]\<rparr>"

text \<open>An index that holds the given objects in their UID buckets, and nothing else.\<close>

definition indexOf :: "PartialObjectMetadata list \<Rightarrow> index" where
  "indexOf objects = emptyIndex\<lparr>byUID := (\<lambda>uid. filter (\<lambda>object. UID object = uid) objects)\<rparr>"

text \<open>Owner references and candidates that differ from those of the test in one field.\<close>

definition badRef :: OwnerReference where
  "badRef = node1Ref\<lparr>refAPIVersion := ''a/b/c''\<rparr>"

definition lowerRef :: OwnerReference where
  "lowerRef = node1Ref\<lparr>refKind := ''node''\<rparr>"

definition elsewhere :: PartialObjectMetadata where
  "elsewhere = node1\<lparr>Namespace := ''ns2'', Kind := ''Pod''\<rparr>"

definition nodex :: PartialObjectMetadata where
  "nodex = node1\<lparr>Name := ''nodex''\<rparr>"

definition partialNode :: PartialObjectMetadata where
  "partialNode = node1\<lparr>APIVersion := [], Kind := [], Name := ''other''\<rparr>"

text \<open>
  The cluster of the test case \<open>forbidden\<close> without the group \<open>forbidden\<close> in its
  discovery, and what the REST mapper answers for \<open>forbiddenRef\<close> without and with it.
\<close>

definition v1Cluster :: cluster where
  "v1Cluster = testCluster v1Resources forbiddenPages"

definition noMatch :: error where
  "noMatch =
     ''no matches for kind '' @ [CHR 0x22] @ ''ForbiddenKind'' @ [CHR 0x22] @ '' in version '' @
     [CHR 0x22] @ ''forbidden/v1'' @ [CHR 0x22]"

definition forbiddenMapping :: RESTMapping where
  "forbiddenMapping =
     \<lparr>mappingResource =
        \<lparr>gvrGroup = ''forbidden'', gvrVersion = ''v1'', gvrResource = ''forbiddenresources''\<rparr>,
      mappingScope = RESTScopeNameNamespace\<rparr>"

definition undiscoveredIndex :: index where
  "undiscoveredIndex = emptyIndex\<lparr>gvDiscoveryFailures := [forbiddenGV \<mapsto> ''first'']\<rparr>"

definition unlistedIndex :: index where
  "unlistedIndex =
     emptyIndex\<lparr>grListErrors :=
       [\<lparr>grGroup = ''forbidden'', grResource = ''forbiddenresources''\<rparr> \<mapsto> ''not authorized'']\<rparr>"

definition forbiddenGVR :: GroupVersionResource where
  "forbiddenGVR =
     \<lparr>gvrGroup = ''forbidden'', gvrVersion = ''v1'', gvrResource = ''forbiddenresources''\<rparr>"

text \<open>The test case \<open>unavailable version\<close>: \<open>pod1\<close> names its owner with apiVersion \<open>v2\<close>.\<close>

definition v2Ref :: OwnerReference where
  "v2Ref = node1Ref\<lparr>refAPIVersion := ''v2''\<rparr>"

definition unavailableVersionPages :: "GroupVersionResource \<Rightarrow> listing" where
  "unavailableVersionPages gvr =
     (if gvr = nodes then LastPage [node1]
      else if gvr = pods then LastPage [pod1 [v2Ref]]
      else LastPage [])"

definition unavailableVersionCluster :: cluster where
  "unavailableVersionCluster = testCluster v1Resources unavailableVersionPages"

text \<open>A listing of \<open>nodes\<close> whose second request fails, before a listing of \<open>pods\<close>.\<close>

definition expiredPages :: "GroupVersionResource \<Rightarrow> listing" where
  "expiredPages gvr =
     (if gvr = nodes then MorePages [node1] (ListError ''the continue token has expired'')
      else if gvr = pods then LastPage [pod1 [node1Ref]]
      else LastPage [])"

definition expiredCluster :: cluster where
  "expiredCluster = testCluster v1Resources expiredPages"

section \<open>Functions used to state and prove the properties\<close>

subsection \<open>Discovery and fetching\<close>

text \<open>
  The entries of \<open>groups\<close> that the discovery loop records when it starts from the map
  \<open>m\<close>: those whose group/version is neither in \<open>m\<close> nor earlier in \<open>groups\<close>.
\<close>

fun recorded :: "(GroupVersion \<rightharpoonup> error) \<Rightarrow> (GroupVersion \<times> error) list \<Rightarrow> (GroupVersion \<times> error) list" where
  "recorded m [] = []"
| "recorded m (p # rest) =
     (if fst p \<in> dom m then recorded m rest else p # recorded (m(fst p \<mapsto> snd p)) rest)"

definition discoveryNotice :: "GroupVersion \<times> error \<Rightarrow> string" where
  "discoveryNotice p =
     ''warning: could not discover resources in '' @ gvString (fst p) @ '': '' @ snd p"

text \<open>The \<open>Groups\<close> of a discovery error that is tolerated.\<close>

fun failedGroups :: "discoveryResult \<Rightarrow> (GroupVersion \<times> error) list" where
  "failedGroups (ErrGroupDiscoveryFailed groups) = groups"
| "failedGroups (DiscoveryError err) = []"
| "failedGroups DiscoveryOK = []"

text \<open>
  What holds of the variables between discovery and fetching: only discovery failures
  are recorded, each counted as one warning, and nothing is written to \<open>v.Stdout\<close>.
\<close>

definition discovered :: "index \<times> report \<Rightarrow> bool" where
  "discovered s =
     (case s of (idx, rep) \<Rightarrow>
        byGVR idx = (\<lambda>gvr. []) \<and> byUID idx = (\<lambda>uid. []) \<and> grListErrors idx = Map.empty \<and>
        finite (dom (gvDiscoveryFailures idx)) \<and>
        warningCount rep = card (dom (gvDiscoveryFailures idx)) \<and>
        errorCount rep = 0 \<and> stdout rep = [] \<and> initialized rep = False \<and>
        nilFuncCalled rep = False)"

text \<open>
  The items of the pages that are retrieved before the listing ends or fails, and the
  error it fails with.
\<close>

fun retrieved :: "listing \<Rightarrow> PartialObjectMetadata list" where
  "retrieved (ListError err) = []"
| "retrieved (LastPage items) = items"
| "retrieved (MorePages items rest) = items @ retrieved rest"

fun listingError :: "listing \<Rightarrow> error option" where
  "listingError (ListError err) = Some err"
| "listingError (LastPage items) = None"
| "listingError (MorePages items rest) = listingError rest"

text \<open>
  An item as the claim on back-filling describes its insertion: with the apiVersion and
  the kind of \<open>gvk\<close> when it has neither, unchanged otherwise.
\<close>

definition backfilled :: "GroupVersionKind \<Rightarrow> PartialObjectMetadata \<Rightarrow> PartialObjectMetadata" where
  "backfilled gvk item =
     (if APIVersion item = [] \<and> Kind item = []
      then item\<lparr>APIVersion := gvString (gvkGroupVersion gvk), Kind := gvkKind gvk\<rparr>
      else item)"

subsection \<open>The checks of an owner reference, as the specification lists them\<close>

text \<open>The three aspects in which a candidate of the UID bucket can match.\<close>

definition nameAspect :: "OwnerReference \<Rightarrow> PartialObjectMetadata \<Rightarrow> bool" where
  "nameAspect ownerRef candidate = (Name candidate = refName ownerRef)"

definition namespaceAspect :: "PartialObjectMetadata \<Rightarrow> PartialObjectMetadata \<Rightarrow> bool" where
  "namespaceAspect child candidate =
     (Namespace candidate = [] \<or> Namespace candidate = Namespace child)"

definition groupKindAspect ::
  "cluster \<Rightarrow> OwnerReference \<Rightarrow> GroupVersion \<Rightarrow> PartialObjectMetadata \<Rightarrow> bool" where
  "groupKindAspect env ownerRef ownerGV candidate =
     (APIVersion candidate = [] \<or> Kind candidate = [] \<or>
      (gvGroup (fst (ParseGroupVersion env (APIVersion candidate))) = gvGroup ownerGV \<and>
       (Kind candidate = refKind ownerRef \<or> ToLower env (Kind candidate) = refKind ownerRef)))"

text \<open>A finding is a level and a message; a check fires with a finding or does not fire.\<close>

type_synonym finding = "string \<times> string"

definition ownerGVOf :: "cluster \<Rightarrow> OwnerReference \<Rightarrow> GroupVersion" where
  "ownerGVOf env ownerRef = fst (ParseGroupVersion env (refAPIVersion ownerRef))"

definition resolveOwner :: "cluster \<Rightarrow> OwnerReference \<Rightarrow> error + RESTMapping" where
  "resolveOwner env ownerRef =
     RESTMappingOf env \<lparr>gkGroup = gvGroup (ownerGVOf env ownerRef), gkKind = refKind ownerRef\<rparr>
       (gvVersion (ownerGVOf env ownerRef))"

text \<open>1. Parse owner apiVersion.\<close>

definition checkParse :: "cluster \<Rightarrow> OwnerReference \<Rightarrow> finding option" where
  "checkParse env ownerRef =
     (case snd (ParseGroupVersion env (refAPIVersion ownerRef)) of
        Some err \<Rightarrow>
          Some (levelError, ''invalid owner apiVersion '' @ refAPIVersion ownerRef @ '': '' @ err)
      | None \<Rightarrow> None)"

text \<open>2. Resolve owner kind.\<close>

definition checkResolve :: "cluster \<Rightarrow> index \<Rightarrow> OwnerReference \<Rightarrow> finding option" where
  "checkResolve env idx ownerRef =
     (case resolveOwner env ownerRef of
        Inl err \<Rightarrow>
          (case gvDiscoveryFailures idx (ownerGVOf env ownerRef) of
             Some discoveryErr \<Rightarrow>
               Some (levelWarning,
                     ''failed resolving resources for '' @ refAPIVersion ownerRef @ '': '' @ discoveryErr)
           | None \<Rightarrow> Some (levelError, ''cannot resolve owner apiVersion/kind: '' @ err))
      | Inr mapping \<Rightarrow> None)"

text \<open>3. Scope check.\<close>

definition checkScope :: "cluster \<Rightarrow> PartialObjectMetadata \<Rightarrow> OwnerReference \<Rightarrow> finding option" where
  "checkScope env child ownerRef =
     (case resolveOwner env ownerRef of
        Inl err \<Rightarrow> None
      | Inr mapping \<Rightarrow>
          (if mappingScope mapping = RESTScopeNameNamespace \<and> Namespace child = []
           then Some (levelError,
                      ''cannot reference namespaced type as owner (apiVersion='' @
                      gvString (ownerGVOf env ownerRef) @ '',kind='' @ refKind ownerRef @ '')'')
           else None))"

text \<open>4. Existence check.\<close>

definition checkExistence :: "cluster \<Rightarrow> index \<Rightarrow> OwnerReference \<Rightarrow> finding option" where
  "checkExistence env idx ownerRef =
     (if byUID idx (refUID ownerRef) = []
      then (case resolveOwner env ownerRef of
              Inl err \<Rightarrow> None
            | Inr mapping \<Rightarrow>
                (case grListErrors idx (gvrGroupResource (mappingResource mapping)) of
                   Some listErr \<Rightarrow>
                     Some (levelWarning,
                           ''could not list parent resource '' @
                           grString (gvrGroupResource (mappingResource mapping)))
                 | None \<Rightarrow> Some (levelError, ''no object found for uid'')))
      else None)"

text \<open>
  5. Multi-candidate cross-check: an aspect is in order when some candidate of the bucket
  has it. The messages name the last candidate of the bucket.
\<close>

definition checkCandidates ::
  "cluster \<Rightarrow> PartialObjectMetadata \<Rightarrow> OwnerReference \<Rightarrow> GroupVersion \<Rightarrow> PartialObjectMetadata list \<Rightarrow>
   finding option" where
  "checkCandidates env child ownerRef ownerGV bucket =
     (if bucket = [] then None
      else if \<not> (\<exists>candidate \<in> set bucket. namespaceAspect child candidate)
      then Some (levelError,
                 ''child namespace does not match owner namespace ('' @
                 Namespace (last bucket) @ '')'')
      else if \<not> (\<exists>candidate \<in> set bucket. nameAspect ownerRef candidate)
      then Some (levelError,
                 ''ownerReference name ('' @ refName ownerRef @ '') does not match owner name ('' @
                 Name (last bucket) @ '')'')
      else if \<not> (\<exists>candidate \<in> set bucket. groupKindAspect env ownerRef ownerGV candidate)
      then Some (levelError,
                 ''ownerReference group/kind ('' @ gvGroup ownerGV @ ''/'' @ refKind ownerRef @
                 '') does not match owner group/kind ('' @
                 gvGroup (fst (ParseGroupVersion env (APIVersion (last bucket)))) @ ''/'' @
                 Kind (last bucket) @ '')'')
      else None)"

text \<open>The checks in their order, stopping at the first that fires.\<close>

fun firstFiring :: "finding option list \<Rightarrow> finding option" where
  "firstFiring [] = None"
| "firstFiring (None # checks) = firstFiring checks"
| "firstFiring (Some f # checks) = Some f"

definition orderedChecks ::
  "cluster \<Rightarrow> index \<Rightarrow> PartialObjectMetadata \<Rightarrow> OwnerReference \<Rightarrow> finding option" where
  "orderedChecks env idx child ownerRef =
     firstFiring
       [checkParse env ownerRef,
        checkResolve env idx ownerRef,
        checkScope env child ownerRef,
        checkExistence env idx ownerRef,
        checkCandidates env child ownerRef (ownerGVOf env ownerRef) (byUID idx (refUID ownerRef))]"

subsection \<open>The sequence of findings\<close>

text \<open>
  The key by which the resource types are ordered: group, then version, then resource,
  each compared as a byte string.
\<close>

definition gvrKey :: "GroupVersionResource \<Rightarrow> string \<times> string \<times> string" where
  "gvrKey gvr = (gvrGroup gvr, gvrVersion gvr, gvrResource gvr)"

text \<open>
  A finding with the resource type, the child and the owner reference it is about: the
  five arguments of one call of \<open>outputRefMessage\<close>.
\<close>

type_synonym refFinding =
  "GroupVersionResource \<times> PartialObjectMetadata \<times> OwnerReference \<times> string \<times> string"

definition findingsOfRef ::
  "cluster \<Rightarrow> index \<Rightarrow> GroupVersionResource \<Rightarrow> PartialObjectMetadata \<Rightarrow> OwnerReference \<Rightarrow> refFinding list" where
  "findingsOfRef env idx gvr child ownerRef =
     (case orderedChecks env idx child ownerRef of
        None \<Rightarrow> []
      | Some (level, msg) \<Rightarrow> [(gvr, child, ownerRef, level, msg)])"

text \<open>
  The findings of a resource type: those of its objects in the order fetched, and for
  each object those of its owner references in the order declared.
\<close>

definition findingsOfType :: "cluster \<Rightarrow> index \<Rightarrow> GroupVersionResource \<Rightarrow> refFinding list" where
  "findingsOfType env idx gvr =
     concat (map (\<lambda>child. concat (map (findingsOfRef env idx gvr child) (OwnerReferences child)))
               (byGVR idx gvr))"

text \<open>Handing a sequence of findings to a sink, one call each, in order.\<close>

definition emitAll :: "refMessage \<Rightarrow> report \<Rightarrow> refFinding list \<Rightarrow> report" where
  "emitAll refMessage rep findings =
     foldl (\<lambda>r (gvr, child, ownerRef, level, msg). refMessage r gvr child ownerRef level msg)
       rep findings"

definition levelOf :: "refFinding \<Rightarrow> string" where
  "levelOf finding = (case finding of (gvr, child, ownerRef, level, msg) \<Rightarrow> level)"

section \<open>Properties\<close>

subsection \<open>The summary line\<close>

lemma forbidden_run_counts:
  "(case Run forbiddenCluster \<lparr>Output = []\<rparr> of
      Inl e \<Rightarrow> False
    | Inr (idx, rep) \<Rightarrow> errorCount rep = 0 \<and> warningCount rep = 2)"
  by code_simp

lemma Run_Inr_summary:
  assumes "Run env v = Inr (idx, rep)"
  obtains rep' where "rep = rep'\<lparr>stderr := stderr rep' @ [summary rep']\<rparr>"
  using assms unfolding Run_def Let_def
  by (auto split: sum.splits prod.splits if_splits)

lemma summary_cases:
  "summary rep =
     (if errorCount rep = 0 \<and> warningCount rep = 0
      then ''No invalid ownerReferences found'' @ nl
      else itoa (errorCount rep) @ '' '' @ (if errorCount rep = 1 then ''error'' else ''errors'') @
           '', '' @
           itoa (warningCount rep) @ '' '' @
           (if warningCount rep = 1 then ''warning'' else ''warnings'') @ nl)"
  unfolding summary_def pluralize_def by simp

text \<open>
  C8. When \<open>Run\<close> returns nil, the last thing it wrote to \<open>v.Stderr\<close> is one line made from
  the two counters as they are at that moment: \<open>No invalid ownerReferences found\<close> when
  both are zero, and otherwise \<open><N> error(s), <M> warning(s)\<close> with the decimal counts,
  the singular word exactly for a count of 1.
\<close>

theorem C8_summary_line:
  assumes "Run env v = Inr (idx, rep)"
  shows "\<exists>before. stderr rep = before @
           [if errorCount rep = 0 \<and> warningCount rep = 0
            then ''No invalid ownerReferences found'' @ nl
            else itoa (errorCount rep) @ '' '' @ (if errorCount rep = 1 then ''error'' else ''errors'') @
                 '', '' @
                 itoa (warningCount rep) @ '' '' @
                 (if warningCount rep = 1 then ''warning'' else ''warnings'') @ nl]"
proof -
  from assms obtain rep' where rep: "rep = rep'\<lparr>stderr := stderr rep' @ [summary rep']\<rparr>"
    by (rule Run_Inr_summary)
  have counts: "errorCount rep = errorCount rep'" "warningCount rep = warningCount rep'"
    by (simp_all add: rep)
  have "stderr rep = stderr rep' @ [summary rep']"
    by (simp add: rep)
  then show ?thesis
    unfolding counts summary_cases [of rep'] by blast
qed

theorem C8_summary_line_witness:
  "\<exists>idx rep before. Run forbiddenCluster \<lparr>Output = []\<rparr> = Inr (idx, rep) \<and>
     stderr rep = before @ [''0 errors, 2 warnings'' @ nl]"
proof -
  obtain idx rep where run: "Run forbiddenCluster \<lparr>Output = []\<rparr> = Inr (idx, rep)"
    and counts: "errorCount rep = 0" "warningCount rep = 2"
    using forbidden_run_counts by (auto split: sum.splits)
  have digits: "itoa 0 = ''0''" "itoa 2 = ''2''"
    by (simp_all add: digit_def)
  from C8_summary_line [OF run] obtain before where
    "stderr rep = before @ [''0 errors, 2 warnings'' @ nl]"
    unfolding counts digits by auto
  with run show ?thesis by blast
qed

subsection \<open>Discovery failures\<close>

lemma recorded_keys: "fst ` set (recorded m groups) = fst ` set groups - dom m"
  by (induction groups arbitrary: m) auto

lemma recorded_distinct: "distinct (map fst (recorded m groups))"
  by (induction groups arbitrary: m) (auto simp: recorded_keys)

lemma recorded_subset: "set (recorded m groups) \<subseteq> set groups"
  by (induction groups arbitrary: m) auto

lemma recorded_first: "m gv = None \<Longrightarrow> map_of (recorded m groups) gv = map_of groups gv"
  by (induction groups arbitrary: m) (auto simp: )


lemma fold_noteDiscoveryFailure:
  "fold noteDiscoveryFailure groups (idx, rep) =
     (idx\<lparr>gvDiscoveryFailures := gvDiscoveryFailures idx ++ map_of (recorded (gvDiscoveryFailures idx) groups)\<rparr>,
      rep\<lparr>warningCount := warningCount rep + length (recorded (gvDiscoveryFailures idx) groups),
          stderr := stderr rep @ map discoveryNotice (recorded (gvDiscoveryFailures idx) groups)\<rparr>)"
proof (induction groups arbitrary: idx rep)
  case Nil
  show ?case by simp
next
  case (Cons p groups)
  obtain gv e where p: "p = (gv, e)" by (cases p)
  show ?case
  proof (cases "gvDiscoveryFailures idx gv")
    case None
    then have step: "noteDiscoveryFailure p (idx, rep) =
        (idx\<lparr>gvDiscoveryFailures := (gvDiscoveryFailures idx)(gv \<mapsto> e)\<rparr>,
         rep\<lparr>warningCount := warningCount rep + 1,
             stderr := stderr rep @ [discoveryNotice p]\<rparr>)"
      by (simp add: noteDiscoveryFailure_def p discoveryNotice_def)
    have notin: "gv \<notin> dom (gvDiscoveryFailures idx)" using None by auto
    have m: "(gvDiscoveryFailures idx)(gv \<mapsto> e) ++ map_of (recorded ((gvDiscoveryFailures idx)(gv \<mapsto> e)) groups)
          = gvDiscoveryFailures idx ++ map_of ((gv, e) # recorded ((gvDiscoveryFailures idx)(gv \<mapsto> e)) groups)"
    proof (rule ext)
      fix g
      have "gv \<notin> fst ` set (recorded ((gvDiscoveryFailures idx)(gv \<mapsto> e)) groups)"
        by (simp add: recorded_keys)
      then have "map_of (recorded ((gvDiscoveryFailures idx)(gv \<mapsto> e)) groups) gv = None"
        by (simp add: map_of_eq_None_iff)
      then show "((gvDiscoveryFailures idx)(gv \<mapsto> e) ++ map_of (recorded ((gvDiscoveryFailures idx)(gv \<mapsto> e)) groups)) g
          = (gvDiscoveryFailures idx ++ map_of ((gv, e) # recorded ((gvDiscoveryFailures idx)(gv \<mapsto> e)) groups)) g"
        by (cases "g = gv") (auto simp: map_add_def split: option.splits)
    qed
    have rec: "recorded (gvDiscoveryFailures idx) (p # groups) =
        p # recorded ((gvDiscoveryFailures idx)(gv \<mapsto> e)) groups"
      using notin by (simp add: p)
    have "fold noteDiscoveryFailure (p # groups) (idx, rep) =
        fold noteDiscoveryFailure groups
          (idx\<lparr>gvDiscoveryFailures := (gvDiscoveryFailures idx)(gv \<mapsto> e)\<rparr>,
           rep\<lparr>warningCount := warningCount rep + 1,
               stderr := stderr rep @ [discoveryNotice p]\<rparr>)"
      by (simp add: step)
    also have "\<dots> =
        (idx\<lparr>gvDiscoveryFailures := gvDiscoveryFailures idx ++ map_of (recorded (gvDiscoveryFailures idx) (p # groups))\<rparr>,
         rep\<lparr>warningCount := warningCount rep + length (recorded (gvDiscoveryFailures idx) (p # groups)),
             stderr := stderr rep @ map discoveryNotice (recorded (gvDiscoveryFailures idx) (p # groups))\<rparr>)"
      unfolding Cons.IH rec by (simp add: m p del: map_of.simps)
    finally show ?thesis .
  next
    case (Some a)
    then have step: "noteDiscoveryFailure (gv, e) (idx, rep) = (idx, rep)"
      by (simp add: noteDiscoveryFailure_def)
    have "gv \<in> dom (gvDiscoveryFailures idx)" using Some by auto
    then show ?thesis
      using step by (simp add: Cons.IH p)
  qed
qed


lemma count_distinct_key:
  "distinct (map f xs) \<Longrightarrow> k \<in> f ` set xs \<Longrightarrow> length (filter (\<lambda>p. f p = k) xs) = 1"
proof (induction xs)
  case Nil
  then show ?case by simp
next
  case (Cons x xs)
  show ?case
  proof (cases "f x = k")
    case True
    with Cons.prems have "k \<notin> f ` set xs" by auto
    then have "filter (\<lambda>p. f p = k) xs = []"
      by (auto simp: filter_empty_conv)
    with True show ?thesis by simp
  next
    case False
    with Cons show ?thesis by auto
  qed
qed

lemma discover_failed_twice:
  assumes "GetAPIGroupResources env = ErrGroupDiscoveryFailed groups1"
    and "ServerPreferredResources env = ErrGroupDiscoveryFailed groups2"
  shows "discover env =
     Inr (emptyIndex\<lparr>gvDiscoveryFailures :=
            map_of (recorded Map.empty groups1) ++
            map_of (recorded (map_of (recorded Map.empty groups1)) groups2)\<rparr>,
          emptyReport\<lparr>warningCount :=
            length (recorded Map.empty groups1 @ recorded (map_of (recorded Map.empty groups1)) groups2),
            stderr := map discoveryNotice
              (recorded Map.empty groups1 @ recorded (map_of (recorded Map.empty groups1)) groups2)\<rparr>)"
proof -
  have e: "gvDiscoveryFailures emptyIndex = Map.empty" "warningCount emptyReport = 0"
    "stderr emptyReport = []"
    by (simp_all add: emptyIndex_def emptyReport_def)
  show ?thesis
    unfolding discover_def assms
    by (simp add: fold_noteDiscoveryFailure e)
qed

text \<open>
  C10. When the same group/version \<open>gv\<close> is in the \<open>Groups\<close> of the errors of both
  discovery calls, the two loops together write one notice and add one warning for each
  entry of a list \<open>L\<close> in which \<open>gv\<close> occurs exactly once, and \<open>gvDiscoveryFailures\<close> keeps
  for \<open>gv\<close> the error of the first call (the first one the loop over that call's
  \<open>Groups\<close> meets).
\<close>

theorem C10_discovery_failure_reported_once:
  assumes "GetAPIGroupResources env = ErrGroupDiscoveryFailed groups1"
    and "ServerPreferredResources env = ErrGroupDiscoveryFailed groups2"
    and "gv \<in> fst ` set groups1" and "gv \<in> fst ` set groups2"
  shows "\<exists>idx rep L.
     discover env = Inr (idx, rep) \<and>
     stderr rep =
       map (\<lambda>(failedGV, err).
              ''warning: could not discover resources in '' @ gvString failedGV @ '': '' @ err) L \<and>
     warningCount rep = length L \<and>
     length (filter (\<lambda>(failedGV, err). failedGV = gv) L) = 1 \<and>
     map_of L gv = map_of groups1 gv \<and>
     gvDiscoveryFailures idx gv = map_of groups1 gv"
proof -
  let ?R1 = "recorded Map.empty groups1"
  let ?R2 = "recorded (map_of ?R1) groups2"
  let ?L = "?R1 @ ?R2"
  have notice: "(\<lambda>(failedGV, err).
      ''warning: could not discover resources in '' @ gvString failedGV @ '': '' @ err) = discoveryNotice"
    by (auto simp: discoveryNotice_def fun_eq_iff)
  have key: "(\<lambda>(failedGV, err). failedGV = gv) = (\<lambda>p. fst p = gv)"
    by (auto simp: fun_eq_iff)
  have k1: "fst ` set ?R1 = fst ` set groups1"
    by (simp add: recorded_keys)
  have k2: "fst ` set ?R2 = fst ` set groups2 - fst ` set groups1"
    by (simp add: recorded_keys dom_map_of_conv_image_fst k1)
  have dist: "distinct (map fst ?L)"
    using k1 k2 by (auto simp: recorded_distinct)
  have inL: "gv \<in> fst ` set ?L"
    using assms(3) k1 by auto
  have once: "length (filter (\<lambda>p. fst p = gv) ?L) = 1"
    using dist inL by (rule count_distinct_key)
  have notin2: "map_of ?R2 gv = None"
    using assms(3) k2 by (simp add: map_of_eq_None_iff)
  have first: "map_of ?R1 gv = map_of groups1 gv"
    by (simp add: recorded_first)
  have mL: "map_of ?L gv = map_of groups1 gv"
    using notin2 first by (simp add: map_add_def split: option.splits)
  have mI: "(map_of ?R1 ++ map_of ?R2) gv = map_of groups1 gv"
    using notin2 first by (simp add: map_add_def split: option.splits)
  show ?thesis
    unfolding notice key
    using discover_failed_twice [OF assms(1,2)] once mL mI
    by (intro exI [of _ "emptyIndex\<lparr>gvDiscoveryFailures := map_of ?R1 ++ map_of ?R2\<rparr>"]
          exI [of _ "emptyReport\<lparr>warningCount := length ?L, stderr := map discoveryNotice ?L\<rparr>"]
          exI [of _ ?L]) simp
qed

theorem C10_discovery_failure_reported_once_witness:
  "\<exists>idx rep L.
     discover undiscoveredCluster = Inr (idx, rep) \<and>
     stderr rep =
       map (\<lambda>(failedGV, err).
              ''warning: could not discover resources in '' @ gvString failedGV @ '': '' @ err) L \<and>
     warningCount rep = length L \<and>
     length (filter (\<lambda>(failedGV, err). failedGV = forbiddenGV) L) = 1 \<and>
     map_of L forbiddenGV = Some ''first'' \<and>
     gvDiscoveryFailures idx forbiddenGV = Some ''first''"
  using C10_discovery_failure_reported_once
    [of undiscoveredCluster "[(forbiddenGV, ''first'')]" "[(v1, ''other''), (forbiddenGV, ''second'')]" forbiddenGV]
  by (simp add: undiscoveredCluster_def)

subsection \<open>Fetching\<close>

lemma fillIn_backfilled: "fillIn gvk item = backfilled gvk item"
proof (cases "APIVersion item = [] \<and> Kind item = [] \<and> gvkEmpty gvk")
  case True
  then have "gvString (gvkGroupVersion gvk) = []" "gvkKind gvk = []"
    by (simp_all add: gvkEmpty_def gvString_def gvkGroupVersion_def)
  with True show ?thesis
    by (simp add: fillIn_def backfilled_def)
next
  case False
  then show ?thesis
    by (auto simp: fillIn_def backfilled_def)
qed

lemma UID_fillIn [simp]: "UID (fillIn gvk item) = UID item"
  by (simp add: fillIn_def)

lemma foldl_addItem:
  "gvDiscoveryFailures (foldl (addItem gvr gvk) idx items) = gvDiscoveryFailures idx"
  "grListErrors (foldl (addItem gvr gvk) idx items) = grListErrors idx"
  "byUID (foldl (addItem gvr gvk) idx items) u =
     byUID idx u @ filter (\<lambda>i. UID i = u) (map (fillIn gvk) items)"
  "byGVR (foldl (addItem gvr gvk) idx items) g =
     (if g = gvr then byGVR idx gvr @ map (fillIn gvk) items else byGVR idx g)"
  by (induction items arbitrary: idx; simp add: addItem_def Let_def)+

lemma eachListItem_gvDiscoveryFailures:
  "gvDiscoveryFailures (fst (eachListItem env gvr gvk l (idx, rep))) = gvDiscoveryFailures idx"
  by (induction l arbitrary: idx rep) (simp_all add: listFailed_def foldl_addItem)

lemma eachListItem_grListErrors:
  "grListErrors (fst (eachListItem env gvr gvk l (idx, rep))) =
     (case listingError l of
        None \<Rightarrow> grListErrors idx
      | Some err \<Rightarrow> (grListErrors idx)(gvrGroupResource gvr \<mapsto> err))"
  by (induction l arbitrary: idx rep) (simp_all add: listFailed_def foldl_addItem split: option.splits)

lemma eachListItem_byUID:
  "byUID (fst (eachListItem env gvr gvk l (idx, rep))) u =
     byUID idx u @ filter (\<lambda>i. UID i = u) (map (fillIn gvk) (retrieved l))"
  by (induction l arbitrary: idx rep) (simp_all add: listFailed_def foldl_addItem)

lemma eachListItem_byGVR:
  "byGVR (fst (eachListItem env gvr gvk l (idx, rep))) g =
     (if g = gvr then byGVR idx gvr @ map (fillIn gvk) (retrieved l) else byGVR idx g)"
  by (induction l arbitrary: idx rep) (simp_all add: listFailed_def foldl_addItem)

lemmas eachListItem_index =
  eachListItem_gvDiscoveryFailures eachListItem_grListErrors eachListItem_byUID eachListItem_byGVR

lemma eachListItem_report:
  "warningCount (snd (eachListItem env gvr gvk l (idx, rep))) =
     warningCount rep + (case listingError l of None \<Rightarrow> 0 | Some err \<Rightarrow> 1)"
  "errorCount (snd (eachListItem env gvr gvk l (idx, rep))) = errorCount rep"
  "initialized (snd (eachListItem env gvr gvk l (idx, rep))) = initialized rep"
  "stdout (snd (eachListItem env gvr gvk l (idx, rep))) = stdout rep"
  "nilFuncCalled (snd (eachListItem env gvr gvk l (idx, rep))) = nilFuncCalled rep"
  by (induction l arbitrary: idx rep; simp add: listFailed_def listed_def)+

lemma fetch_index:
  "gvDiscoveryFailures (fst (fetch env gvr (idx, rep))) = gvDiscoveryFailures idx"
  "grListErrors (fst (fetch env gvr (idx, rep))) =
     (case listingError (ListPages env gvr) of
        None \<Rightarrow> grListErrors idx
      | Some err \<Rightarrow> (grListErrors idx)(gvrGroupResource gvr \<mapsto> err))"
  "byUID (fst (fetch env gvr (idx, rep))) u =
     byUID idx u @
     filter (\<lambda>i. UID i = u) (map (fillIn (KindFor env gvr)) (retrieved (ListPages env gvr)))"
  "byGVR (fst (fetch env gvr (idx, rep))) g =
     (if g = gvr
      then byGVR idx gvr @ map (fillIn (KindFor env gvr)) (retrieved (ListPages env gvr))
      else byGVR idx g)"
  by (simp_all add: fetch_def Let_def eachListItem_index)

lemma fetch_report:
  "warningCount (snd (fetch env gvr (idx, rep))) =
     warningCount rep + (case listingError (ListPages env gvr) of None \<Rightarrow> 0 | Some err \<Rightarrow> 1)"
  "errorCount (snd (fetch env gvr (idx, rep))) = errorCount rep"
  "initialized (snd (fetch env gvr (idx, rep))) = initialized rep"
  "stdout (snd (fetch env gvr (idx, rep))) = stdout rep"
  "nilFuncCalled (snd (fetch env gvr (idx, rep))) = nilFuncCalled rep"
  by (simp_all add: fetch_def Let_def eachListItem_report)

text \<open>
  C9. Every item of every retrieved page of a resource type is appended to the list of
  that type and to the bucket of its UID, in the order retrieved; an item whose
  apiVersion and kind are both empty is inserted with the apiVersion and the kind that
  the REST mapper gives for the resource type, any other item unchanged.
\<close>

theorem C9_backfill_before_insert:
  "byGVR (fst (fetch env gvr (idx, rep))) gvr =
     byGVR idx gvr @ map (backfilled (KindFor env gvr)) (retrieved (ListPages env gvr)) \<and>
   byUID (fst (fetch env gvr (idx, rep))) uid =
     byUID idx uid @
     filter (\<lambda>item. UID item = uid) (map (backfilled (KindFor env gvr)) (retrieved (ListPages env gvr))) \<and>
   backfilled gvk (item\<lparr>APIVersion := [], Kind := []\<rparr>) =
     item\<lparr>APIVersion := gvString (gvkGroupVersion gvk), Kind := gvkKind gvk\<rparr> \<and>
   backfilled gvk (item\<lparr>APIVersion := a # as\<rparr>) = item\<lparr>APIVersion := a # as\<rparr> \<and>
   backfilled gvk (item\<lparr>Kind := k # ks\<rparr>) = item\<lparr>Kind := k # ks\<rparr>"
proof -
  have f: "fillIn (KindFor env gvr) = backfilled (KindFor env gvr)"
    by (rule ext) (rule fillIn_backfilled)
  show ?thesis
    by (simp add: fetch_index f) (simp add: backfilled_def)
qed


lemma fetchAll_Nil [simp]: "fetchAll env [] s = s"
  by (simp add: fetchAll_def)

lemma fetchAll_Cons [simp]: "fetchAll env (gvr # gvrs) s = fetchAll env gvrs (fetch env gvr s)"
  by (simp add: fetchAll_def)

lemma fetchAll_gvDiscoveryFailures:
  "gvDiscoveryFailures (fst (fetchAll env gvrs (idx, rep))) = gvDiscoveryFailures idx"
proof (induction gvrs arbitrary: idx rep)
  case Nil
  show ?case by simp
next
  case (Cons gvr gvrs)
  obtain idx1 rep1 where s: "fetch env gvr (idx, rep) = (idx1, rep1)"
    by (cases "fetch env gvr (idx, rep)")
  have "gvDiscoveryFailures idx1 = gvDiscoveryFailures idx"
    using fetch_index(1) [of env gvr idx rep] by (simp add: s)
  then show ?case by (simp add: s Cons.IH)
qed

lemma fetchAll_byGVR:
  "distinct gvrs \<Longrightarrow>
   byGVR (fst (fetchAll env gvrs (idx, rep))) g =
     (if g \<in> set gvrs
      then byGVR idx g @ map (fillIn (KindFor env g)) (retrieved (ListPages env g))
      else byGVR idx g)"
proof (induction gvrs arbitrary: idx rep)
  case Nil
  show ?case by simp
next
  case (Cons gvr gvrs)
  obtain idx1 rep1 where s: "fetch env gvr (idx, rep) = (idx1, rep1)"
    by (cases "fetch env gvr (idx, rep)")
  have one: "byGVR idx1 g =
     (if g = gvr
      then byGVR idx gvr @ map (fillIn (KindFor env gvr)) (retrieved (ListPages env gvr))
      else byGVR idx g)"
    using fetch_index(4) [of env gvr idx rep g] by (simp add: s)
  from Cons.prems have "distinct gvrs" "gvr \<notin> set gvrs" by simp_all
  then show ?case
    using one by (auto simp: s Cons.IH)
qed

lemma fetchAll_byUID:
  "byUID (fst (fetchAll env gvrs (idx, rep))) u =
     byUID idx u @
     concat (map (\<lambda>g. filter (\<lambda>i. UID i = u)
                         (map (fillIn (KindFor env g)) (retrieved (ListPages env g)))) gvrs)"
proof (induction gvrs arbitrary: idx rep)
  case Nil
  show ?case by simp
next
  case (Cons gvr gvrs)
  obtain idx1 rep1 where s: "fetch env gvr (idx, rep) = (idx1, rep1)"
    by (cases "fetch env gvr (idx, rep)")
  have one: "byUID idx1 u =
     byUID idx u @
     filter (\<lambda>i. UID i = u) (map (fillIn (KindFor env gvr)) (retrieved (ListPages env gvr)))"
    using fetch_index(3) [of env gvr idx rep u] by (simp add: s)
  show ?case
    by (simp add: s Cons.IH one)
qed

lemma fetchAll_grListErrors_kept:
  "grListErrors idx gr \<noteq> None \<Longrightarrow> grListErrors (fst (fetchAll env gvrs (idx, rep))) gr \<noteq> None"
proof (induction gvrs arbitrary: idx rep)
  case Nil
  then show ?case by simp
next
  case (Cons gvr gvrs)
  obtain idx1 rep1 where s: "fetch env gvr (idx, rep) = (idx1, rep1)"
    by (cases "fetch env gvr (idx, rep)")
  have "grListErrors idx1 gr \<noteq> None"
    using fetch_index(2) [of env gvr idx rep] Cons.prems
    by (auto simp: s split: option.splits)
  then show ?case
    by (simp add: s Cons.IH)
qed

lemma fetchAll_grListErrors:
  "g \<in> set gvrs \<Longrightarrow> listingError (ListPages env g) \<noteq> None \<Longrightarrow>
   grListErrors (fst (fetchAll env gvrs (idx, rep))) (gvrGroupResource g) \<noteq> None"
proof (induction gvrs arbitrary: idx rep)
  case Nil
  then show ?case by simp
next
  case (Cons gvr gvrs)
  obtain idx1 rep1 where s: "fetch env gvr (idx, rep) = (idx1, rep1)"
    by (cases "fetch env gvr (idx, rep)")
  show ?case
  proof (cases "g = gvr")
    case True
    have "grListErrors idx1 (gvrGroupResource g) \<noteq> None"
      using fetch_index(2) [of env gvr idx rep] Cons.prems(2) True
      by (auto simp: s split: option.splits)
    then show ?thesis
      by (simp add: s fetchAll_grListErrors_kept)
  next
    case False
    with Cons.prems have "g \<in> set gvrs" by simp
    then show ?thesis
      using Cons.prems(2) by (simp add: s Cons.IH)
  qed
qed

lemma fetchAll_report_all:
  "warningCount (snd (fetchAll env gvrs (idx, rep))) =
     warningCount rep + length (filter (\<lambda>g. listingError (ListPages env g) \<noteq> None) gvrs) \<and>
   errorCount (snd (fetchAll env gvrs (idx, rep))) = errorCount rep \<and>
   initialized (snd (fetchAll env gvrs (idx, rep))) = initialized rep \<and>
   stdout (snd (fetchAll env gvrs (idx, rep))) = stdout rep \<and>
   nilFuncCalled (snd (fetchAll env gvrs (idx, rep))) = nilFuncCalled rep"
proof (induction gvrs arbitrary: idx rep)
  case Nil
  show ?case by simp
next
  case (Cons gvr gvrs)
  obtain idx1 rep1 where s: "fetch env gvr (idx, rep) = (idx1, rep1)"
    by (cases "fetch env gvr (idx, rep)")
  have r: "warningCount rep1 =
      warningCount rep + (case listingError (ListPages env gvr) of None \<Rightarrow> 0 | Some err \<Rightarrow> 1)"
    "errorCount rep1 = errorCount rep" "initialized rep1 = initialized rep"
    "stdout rep1 = stdout rep" "nilFuncCalled rep1 = nilFuncCalled rep"
    using fetch_report [of env gvr idx rep] by (simp_all add: s)
  show ?case
    using Cons.IH [of idx1 rep1] by (simp add: s r split: option.splits)
qed

lemmas fetchAll_report =
  fetchAll_report_all [THEN conjunct1]
  fetchAll_report_all [THEN conjunct2, THEN conjunct1]
  fetchAll_report_all [THEN conjunct2, THEN conjunct2, THEN conjunct1]
  fetchAll_report_all [THEN conjunct2, THEN conjunct2, THEN conjunct2, THEN conjunct1]
  fetchAll_report_all [THEN conjunct2, THEN conjunct2, THEN conjunct2, THEN conjunct2]

subsection \<open>The loop over the candidates\<close>


lemma compareOwner_nameOk:
  "nameOk (compareOwner env child ownerRef ownerGV c x) = (nameOk c \<or> nameAspect ownerRef x)"
  by (simp add: compareOwner_def Let_def nameAspect_def)

lemma compareOwner_actualName:
  "actualName (compareOwner env child ownerRef ownerGV c x) =
     (if nameAspect ownerRef x then actualName c else Name x)"
  by (simp add: compareOwner_def Let_def nameAspect_def)

lemma compareOwner_namespaceOk:
  "namespaceOk (compareOwner env child ownerRef ownerGV c x) = (namespaceOk c \<or> namespaceAspect child x)"
  by (simp add: compareOwner_def Let_def namespaceAspect_def)

lemma compareOwner_actualNamespace:
  "actualNamespace (compareOwner env child ownerRef ownerGV c x) =
     (if namespaceAspect child x then actualNamespace c else Namespace x)"
  by (simp add: compareOwner_def Let_def namespaceAspect_def)


lemma compareOwner_groupKind:
  "groupKindOk (compareOwner env child ownerRef ownerGV c x) =
     (groupKindOk c \<or> groupKindAspect env ownerRef ownerGV x) \<and>
   actualGVK (compareOwner env child ownerRef ownerGV c x) =
     (if groupKindAspect env ownerRef ownerGV x then actualGVK c
      else WithKind (fst (ParseGroupVersion env (APIVersion x))) (Kind x))"
proof (cases "APIVersion x = [] \<or> Kind x = []")
  case True
  then have "groupKindAspect env ownerRef ownerGV x"
    by (auto simp: groupKindAspect_def)
  then show ?thesis
    using True by (simp add: compareOwner_def Let_def)
next
  case empty: False
  show ?thesis
  proof (cases "gvGroup (fst (ParseGroupVersion env (APIVersion x))) = gvGroup ownerGV")
    case group: True
    show ?thesis
    proof (cases "Kind x = refKind ownerRef")
      case True
      then have "groupKindAspect env ownerRef ownerGV x"
        using group by (simp add: groupKindAspect_def)
      then show ?thesis
        using empty group True by (simp add: compareOwner_def Let_def)
    next
      case kind: False
      show ?thesis
      proof (cases "ToLower env (Kind x) = refKind ownerRef")
        case True
        then have "groupKindAspect env ownerRef ownerGV x"
          using group by (simp add: groupKindAspect_def)
        then show ?thesis
          using empty group kind True by (simp add: compareOwner_def Let_def)
      next
        case False
        then have "\<not> groupKindAspect env ownerRef ownerGV x"
          using empty kind by (simp add: groupKindAspect_def)
        then show ?thesis
          using empty group kind False by (simp add: compareOwner_def Let_def)
      qed
    qed
  next
    case False
    then have "\<not> groupKindAspect env ownerRef ownerGV x"
      using empty by (simp add: groupKindAspect_def)
    then show ?thesis
      using empty False by (simp add: compareOwner_def Let_def)
  qed
qed

lemmas compareOwner_groupKindOk = compareOwner_groupKind [THEN conjunct1]
lemmas compareOwner_actualGVK = compareOwner_groupKind [THEN conjunct2]

lemmas compareOwner_fields =
  compareOwner_nameOk compareOwner_actualName compareOwner_namespaceOk
  compareOwner_actualNamespace compareOwner_groupKindOk compareOwner_actualGVK


lemma compareOwners_ok:
  "nameOk (foldl (compareOwner env child ownerRef ownerGV) c xs) =
     (nameOk c \<or> (\<exists>x \<in> set xs. nameAspect ownerRef x))"
  "namespaceOk (foldl (compareOwner env child ownerRef ownerGV) c xs) =
     (namespaceOk c \<or> (\<exists>x \<in> set xs. namespaceAspect child x))"
  "groupKindOk (foldl (compareOwner env child ownerRef ownerGV) c xs) =
     (groupKindOk c \<or> (\<exists>x \<in> set xs. groupKindAspect env ownerRef ownerGV x))"
  by (induction xs rule: rev_induct; simp add: compareOwner_fields; blast)+

lemma compareOwners_actualName:
  "xs \<noteq> [] \<Longrightarrow> \<not> (\<exists>x \<in> set xs. nameAspect ownerRef x) \<Longrightarrow>
   actualName (foldl (compareOwner env child ownerRef ownerGV) c xs) = Name (last xs)"
  by (cases xs rule: rev_cases) (simp_all add: compareOwner_fields)

lemma compareOwners_actualNamespace:
  "xs \<noteq> [] \<Longrightarrow> \<not> (\<exists>x \<in> set xs. namespaceAspect child x) \<Longrightarrow>
   actualNamespace (foldl (compareOwner env child ownerRef ownerGV) c xs) = Namespace (last xs)"
  by (cases xs rule: rev_cases) (simp_all add: compareOwner_fields)

lemma compareOwners_actualGVK:
  "xs \<noteq> [] \<Longrightarrow> \<not> (\<exists>x \<in> set xs. groupKindAspect env ownerRef ownerGV x) \<Longrightarrow>
   actualGVK (foldl (compareOwner env child ownerRef ownerGV) c xs) =
     WithKind (fst (ParseGroupVersion env (APIVersion (last xs)))) (Kind (last xs))"
  by (cases xs rule: rev_cases) (simp_all add: compareOwner_fields)

lemma ownerCheckInit_fields [simp]:
  "nameOk ownerCheckInit = False" "namespaceOk ownerCheckInit = False"
  "groupKindOk ownerCheckInit = False"
  by (simp_all add: ownerCheckInit_def)

lemma checkActualOwners_checkCandidates:
  assumes "actualOwners \<noteq> []"
  shows "checkActualOwners refMessage env gvr child ownerRef ownerGV actualOwners rep =
     (case checkCandidates env child ownerRef ownerGV actualOwners of
        None \<Rightarrow> rep
      | Some (level, msg) \<Rightarrow> refMessage rep gvr child ownerRef level msg)"
  using assms
  by (simp add: checkActualOwners_def checkCandidates_def Let_def compareOwners_ok
      compareOwners_actualName compareOwners_actualNamespace compareOwners_actualGVK WithKind_def)

subsection \<open>One owner reference\<close>

lemma firstFiring_single [simp]: "firstFiring [c] = c"
  by (cases c) simp_all

lemma checkOwnerRef_orderedChecks:
  "checkOwnerRef refMessage env idx gvr child ownerRef rep =
     (case orderedChecks env idx child ownerRef of
        None \<Rightarrow> rep
      | Some (level, msg) \<Rightarrow> refMessage rep gvr child ownerRef level msg)"
proof -
  obtain ownerGV perr where parse: "ParseGroupVersion env (refAPIVersion ownerRef) = (ownerGV, perr)"
    by (cases "ParseGroupVersion env (refAPIVersion ownerRef)")
  have gv: "ownerGVOf env ownerRef = ownerGV"
    by (simp add: ownerGVOf_def parse)
  have res: "resolveOwner env ownerRef =
      RESTMappingOf env (gvkGroupKind (WithKind ownerGV (refKind ownerRef)))
        (gvkVersion (WithKind ownerGV (refKind ownerRef)))"
    by (simp add: resolveOwner_def gv gvkGroupKind_def WithKind_def)
  have str: "gvString (gvkGroupVersion (WithKind ownerGV (refKind ownerRef))) = gvString ownerGV"
    "gvkKind (WithKind ownerGV (refKind ownerRef)) = refKind ownerRef"
    by (simp_all add: gvkGroupVersion_def WithKind_def gvString_def)
  show ?thesis
  proof (cases perr)
    case (Some err)
    then show ?thesis
      by (simp add: checkOwnerRef_def orderedChecks_def checkParse_def parse)
  next
    case None
    then have p: "checkParse env ownerRef = None"
      by (simp add: checkParse_def parse)
    show ?thesis
    proof (cases "resolveOwner env ownerRef")
      case (Inl err)
      then have "checkOwnerRef refMessage env idx gvr child ownerRef rep =
          (case checkResolve env idx ownerRef of
             None \<Rightarrow> rep
           | Some (level, msg) \<Rightarrow> refMessage rep gvr child ownerRef level msg)"
        using Inl [unfolded res]
        by (simp add: checkOwnerRef_def parse None Let_def checkResolve_def gv split: option.splits)
      moreover have "checkResolve env idx ownerRef \<noteq> None"
        by (simp add: checkResolve_def Inl split: option.splits)
      ultimately show ?thesis
        by (auto simp: orderedChecks_def p)
    next
      case (Inr mapping)
      then have r: "checkResolve env idx ownerRef = None"
        by (simp add: checkResolve_def)
      note map = Inr [unfolded res]
      show ?thesis
      proof (cases "mappingScope mapping = RESTScopeNameNamespace \<and> Namespace child = []")
        case True
        then have "checkScope env child ownerRef =
            Some (levelError, ''cannot reference namespaced type as owner (apiVersion='' @
                      gvString ownerGV @ '',kind='' @ refKind ownerRef @ '')'')"
          by (simp add: checkScope_def Inr gv)
        moreover have "checkOwnerRef refMessage env idx gvr child ownerRef rep =
            refMessage rep gvr child ownerRef levelError
              (''cannot reference namespaced type as owner (apiVersion='' @
                      gvString ownerGV @ '',kind='' @ refKind ownerRef @ '')'')"
          using True by (simp add: checkOwnerRef_def parse None Let_def map str)
        ultimately show ?thesis
          by (simp add: orderedChecks_def p r)
      next
        case False
        then have ns: "(mappingScope mapping = RESTScopeNameNamespace \<and> Namespace child = []) = False"
          by simp
        have sc: "checkScope env child ownerRef = None"
          by (simp add: checkScope_def Inr ns)
        show ?thesis
        proof (cases "byUID idx (refUID ownerRef) = []")
          case True
          then have "checkOwnerRef refMessage env idx gvr child ownerRef rep =
              (case checkExistence env idx ownerRef of
                 None \<Rightarrow> rep
               | Some (level, msg) \<Rightarrow> refMessage rep gvr child ownerRef level msg)"
            by (simp add: checkOwnerRef_def parse None Let_def map checkExistence_def Inr ns
                split: option.splits)
          moreover have "checkExistence env idx ownerRef \<noteq> None"
            using True by (simp add: checkExistence_def Inr split: option.splits)
          ultimately show ?thesis
            by (auto simp: orderedChecks_def p r sc)
        next
          case bucket: False
          then have ex: "checkExistence env idx ownerRef = None"
            by (simp add: checkExistence_def)
          have "checkOwnerRef refMessage env idx gvr child ownerRef rep =
              checkActualOwners refMessage env gvr child ownerRef ownerGV
                (byUID idx (refUID ownerRef)) rep"
            using bucket
            by (simp add: checkOwnerRef_def parse None Let_def map ns)
          then show ?thesis
            using bucket
            by (simp add: checkActualOwners_checkCandidates orderedChecks_def p r sc ex gv)
        qed
      qed
    qed
  qed
qed

lemma valid_no_finding:
  assumes parse: "snd (ParseGroupVersion env (refAPIVersion ownerRef)) = None"
    and resolve: "resolveOwner env ownerRef = Inr mapping"
    and scope: "\<not> (mappingScope mapping = RESTScopeNameNamespace \<and> Namespace child = [])"
    and candidates:
      "\<exists>c \<in> set (byUID idx (refUID ownerRef)). nameAspect ownerRef c"
      "\<exists>c \<in> set (byUID idx (refUID ownerRef)). namespaceAspect child c"
      "\<exists>c \<in> set (byUID idx (refUID ownerRef)). groupKindAspect env ownerRef (ownerGVOf env ownerRef) c"
  shows "orderedChecks env idx child ownerRef = None"
proof -
  from scope have ns: "(mappingScope mapping = RESTScopeNameNamespace \<and> Namespace child = []) = False"
    by simp
  from candidates(1) have bucket: "byUID idx (refUID ownerRef) \<noteq> []"
    by auto
  have "checkParse env ownerRef = None"
    by (simp add: checkParse_def parse)
  moreover have "checkResolve env idx ownerRef = None"
    by (simp add: checkResolve_def resolve)
  moreover have "checkScope env child ownerRef = None"
    by (simp add: checkScope_def resolve ns)
  moreover have "checkExistence env idx ownerRef = None"
    by (simp add: checkExistence_def bucket)
  moreover have "checkCandidates env child ownerRef (ownerGVOf env ownerRef)
      (byUID idx (refUID ownerRef)) = None"
    using candidates by (simp add: checkCandidates_def bucket)
  ultimately show ?thesis
    by (simp add: orderedChecks_def)
qed

text \<open>
  C1. One pass of the loop over the owner references evaluates the five checks in
  their order (parse, resolve, scope, existence, candidates) up to the first that fires:
  it calls \<open>outputRefMessage\<close> once, with the finding of that check, and leaves the
  report as it is when none fires. An apiVersion that does not parse gives the Error
  finding of the first check whatever the index and the mapper hold. An owner reference
  that parses, resolves, passes the scope check and has a candidate matching in name,
  namespace and group/kind gives no finding.
\<close>

theorem C1_ordered_checks_first_fires:
  "checkOwnerRef refMessage env idx gvr child ownerRef rep =
     (case firstFiring
             [checkParse env ownerRef,
              checkResolve env idx ownerRef,
              checkScope env child ownerRef,
              checkExistence env idx ownerRef,
              checkCandidates env child ownerRef (ownerGVOf env ownerRef)
                (byUID idx (refUID ownerRef))] of
        None \<Rightarrow> rep
      | Some (level, msg) \<Rightarrow> refMessage rep gvr child ownerRef level msg) \<and>
   (snd (ParseGroupVersion env (refAPIVersion ownerRef)) = Some err \<longrightarrow>
    checkOwnerRef refMessage env idx gvr child ownerRef rep =
      refMessage rep gvr child ownerRef levelError
        (''invalid owner apiVersion '' @ refAPIVersion ownerRef @ '': '' @ err)) \<and>
   (snd (ParseGroupVersion env (refAPIVersion ownerRef)) = None \<and>
    resolveOwner env ownerRef = Inr mapping \<and>
    \<not> (mappingScope mapping = RESTScopeNameNamespace \<and> Namespace child = []) \<and>
    candidate \<in> set (byUID idx (refUID ownerRef)) \<and>
    nameAspect ownerRef candidate \<and>
    namespaceAspect child candidate \<and>
    groupKindAspect env ownerRef (ownerGVOf env ownerRef) candidate \<longrightarrow>
    checkOwnerRef refMessage env idx gvr child ownerRef rep = rep)"
proof (intro conjI impI)
  show "checkOwnerRef refMessage env idx gvr child ownerRef rep =
     (case firstFiring
             [checkParse env ownerRef,
              checkResolve env idx ownerRef,
              checkScope env child ownerRef,
              checkExistence env idx ownerRef,
              checkCandidates env child ownerRef (ownerGVOf env ownerRef)
                (byUID idx (refUID ownerRef))] of
        None \<Rightarrow> rep
      | Some (level, msg) \<Rightarrow> refMessage rep gvr child ownerRef level msg)"
    using checkOwnerRef_orderedChecks [of refMessage env idx gvr child ownerRef rep]
    by (simp only: orderedChecks_def)
next
  assume "snd (ParseGroupVersion env (refAPIVersion ownerRef)) = Some err"
  then have "orderedChecks env idx child ownerRef =
      Some (levelError, ''invalid owner apiVersion '' @ refAPIVersion ownerRef @ '': '' @ err)"
    by (simp add: orderedChecks_def checkParse_def)
  then show "checkOwnerRef refMessage env idx gvr child ownerRef rep =
      refMessage rep gvr child ownerRef levelError
        (''invalid owner apiVersion '' @ refAPIVersion ownerRef @ '': '' @ err)"
    by (simp add: checkOwnerRef_orderedChecks)
next
  assume valid: "snd (ParseGroupVersion env (refAPIVersion ownerRef)) = None \<and>
    resolveOwner env ownerRef = Inr mapping \<and>
    \<not> (mappingScope mapping = RESTScopeNameNamespace \<and> Namespace child = []) \<and>
    candidate \<in> set (byUID idx (refUID ownerRef)) \<and>
    nameAspect ownerRef candidate \<and>
    namespaceAspect child candidate \<and>
    groupKindAspect env ownerRef (ownerGVOf env ownerRef) candidate"
  have "orderedChecks env idx child ownerRef = None"
  proof (rule valid_no_finding)
    show "snd (ParseGroupVersion env (refAPIVersion ownerRef)) = None"
      and "resolveOwner env ownerRef = Inr mapping"
      and "\<not> (mappingScope mapping = RESTScopeNameNamespace \<and> Namespace child = [])"
      using valid by simp_all
    show "\<exists>c \<in> set (byUID idx (refUID ownerRef)). nameAspect ownerRef c"
      and "\<exists>c \<in> set (byUID idx (refUID ownerRef)). namespaceAspect child c"
      and "\<exists>c \<in> set (byUID idx (refUID ownerRef)).
             groupKindAspect env ownerRef (ownerGVOf env ownerRef) c"
      using valid by blast+
  qed
  then show "checkOwnerRef refMessage env idx gvr child ownerRef rep = rep"
    by (simp add: checkOwnerRef_orderedChecks)
qed

lemma node1_valid:
  "snd (ParseGroupVersion forbiddenCluster (refAPIVersion node1Ref)) = None \<and>
   resolveOwner forbiddenCluster node1Ref = Inr \<lparr>mappingResource = nodes, mappingScope = RESTScopeNameRoot\<rparr> \<and>
   \<not> (mappingScope \<lparr>mappingResource = nodes, mappingScope = RESTScopeNameRoot\<rparr> = RESTScopeNameNamespace \<and>
      Namespace (pod1 [node1Ref]) = []) \<and>
   node1 \<in> set (byUID (indexOf [node1]) (refUID node1Ref)) \<and>
   nameAspect node1Ref node1 \<and>
   namespaceAspect (pod1 [node1Ref]) node1 \<and>
   groupKindAspect forbiddenCluster node1Ref (ownerGVOf forbiddenCluster node1Ref) node1"
  by code_simp

lemma badRef_parse:
  "snd (ParseGroupVersion forbiddenCluster (refAPIVersion badRef)) =
     Some ''unexpected GroupVersion string: a/b/c''"
  by code_simp

theorem C1_ordered_checks_first_fires_witness:
  "checkOwnerRef tableRefMessage forbiddenCluster (indexOf [node1]) pods (pod1 [badRef]) badRef emptyReport =
     tableRefMessage emptyReport pods (pod1 [badRef]) badRef levelError
       (''invalid owner apiVersion '' @ refAPIVersion badRef @ '': '' @
        ''unexpected GroupVersion string: a/b/c'') \<and>
   checkOwnerRef tableRefMessage forbiddenCluster (indexOf [node1]) pods (pod1 [node1Ref]) node1Ref emptyReport =
     emptyReport"
proof
  show "checkOwnerRef tableRefMessage forbiddenCluster (indexOf [node1]) pods (pod1 [badRef]) badRef emptyReport =
     tableRefMessage emptyReport pods (pod1 [badRef]) badRef levelError
       (''invalid owner apiVersion '' @ refAPIVersion badRef @ '': '' @
        ''unexpected GroupVersion string: a/b/c'')"
    using C1_ordered_checks_first_fires
      [of tableRefMessage forbiddenCluster "indexOf [node1]" pods "pod1 [badRef]" badRef emptyReport
          "''unexpected GroupVersion string: a/b/c''", THEN conjunct2, THEN conjunct1]
      badRef_parse
    by (rule mp)
  show "checkOwnerRef tableRefMessage forbiddenCluster (indexOf [node1]) pods (pod1 [node1Ref]) node1Ref emptyReport =
     emptyReport"
    using C1_ordered_checks_first_fires
      [of tableRefMessage forbiddenCluster "indexOf [node1]" pods "pod1 [node1Ref]" node1Ref emptyReport
          _ "\<lparr>mappingResource = nodes, mappingScope = RESTScopeNameRoot\<rparr>" node1,
       THEN conjunct2, THEN conjunct2]
      node1_valid
    by (rule mp)
qed

subsection \<open>The cross-check of the candidates\<close>

text \<open>
  C2. Over a non-empty UID bucket, each of the three flags of the loop is set exactly
  when some candidate of the bucket has that aspect, whatever the other aspects of that
  candidate are. After the loop at most one Error is reported: for the namespace when no
  candidate has a compatible namespace; otherwise for the name when no candidate has the
  name; otherwise for the group/kind when no candidate has a compatible group/kind;
  otherwise nothing. The message names the last candidate of the bucket.
\<close>

theorem C2_aspects_independent_with_priority:
  assumes "actualOwners \<noteq> []"
  shows
   "namespaceOk (foldl (compareOwner env child ownerRef ownerGV) ownerCheckInit actualOwners) =
      (\<exists>candidate \<in> set actualOwners.
         Namespace candidate = [] \<or> Namespace candidate = Namespace child) \<and>
    nameOk (foldl (compareOwner env child ownerRef ownerGV) ownerCheckInit actualOwners) =
      (\<exists>candidate \<in> set actualOwners. Name candidate = refName ownerRef) \<and>
    groupKindOk (foldl (compareOwner env child ownerRef ownerGV) ownerCheckInit actualOwners) =
      (\<exists>candidate \<in> set actualOwners. groupKindAspect env ownerRef ownerGV candidate) \<and>
    checkActualOwners refMessage env gvr child ownerRef ownerGV actualOwners rep =
      (if \<not> (\<exists>candidate \<in> set actualOwners.
                Namespace candidate = [] \<or> Namespace candidate = Namespace child)
       then refMessage rep gvr child ownerRef levelError
              (''child namespace does not match owner namespace ('' @
               Namespace (last actualOwners) @ '')'')
       else if \<not> (\<exists>candidate \<in> set actualOwners. Name candidate = refName ownerRef)
       then refMessage rep gvr child ownerRef levelError
              (''ownerReference name ('' @ refName ownerRef @ '') does not match owner name ('' @
               Name (last actualOwners) @ '')'')
       else if \<not> (\<exists>candidate \<in> set actualOwners. groupKindAspect env ownerRef ownerGV candidate)
       then refMessage rep gvr child ownerRef levelError
              (''ownerReference group/kind ('' @ gvGroup ownerGV @ ''/'' @ refKind ownerRef @
               '') does not match owner group/kind ('' @
               gvGroup (fst (ParseGroupVersion env (APIVersion (last actualOwners)))) @ ''/'' @
               Kind (last actualOwners) @ '')'')
       else rep)"
proof (intro conjI)
  show "namespaceOk (foldl (compareOwner env child ownerRef ownerGV) ownerCheckInit actualOwners) =
      (\<exists>candidate \<in> set actualOwners.
         Namespace candidate = [] \<or> Namespace candidate = Namespace child)"
    by (simp add: compareOwners_ok namespaceAspect_def)
  show "nameOk (foldl (compareOwner env child ownerRef ownerGV) ownerCheckInit actualOwners) =
      (\<exists>candidate \<in> set actualOwners. Name candidate = refName ownerRef)"
    by (simp add: compareOwners_ok nameAspect_def)
  show "groupKindOk (foldl (compareOwner env child ownerRef ownerGV) ownerCheckInit actualOwners) =
      (\<exists>candidate \<in> set actualOwners. groupKindAspect env ownerRef ownerGV candidate)"
    by (simp add: compareOwners_ok)
  show "checkActualOwners refMessage env gvr child ownerRef ownerGV actualOwners rep =
      (if \<not> (\<exists>candidate \<in> set actualOwners.
                Namespace candidate = [] \<or> Namespace candidate = Namespace child)
       then refMessage rep gvr child ownerRef levelError
              (''child namespace does not match owner namespace ('' @
               Namespace (last actualOwners) @ '')'')
       else if \<not> (\<exists>candidate \<in> set actualOwners. Name candidate = refName ownerRef)
       then refMessage rep gvr child ownerRef levelError
              (''ownerReference name ('' @ refName ownerRef @ '') does not match owner name ('' @
               Name (last actualOwners) @ '')'')
       else if \<not> (\<exists>candidate \<in> set actualOwners. groupKindAspect env ownerRef ownerGV candidate)
       then refMessage rep gvr child ownerRef levelError
              (''ownerReference group/kind ('' @ gvGroup ownerGV @ ''/'' @ refKind ownerRef @
               '') does not match owner group/kind ('' @
               gvGroup (fst (ParseGroupVersion env (APIVersion (last actualOwners)))) @ ''/'' @
               Kind (last actualOwners) @ '')'')
       else rep)"
    unfolding checkActualOwners_checkCandidates [OF assms] checkCandidates_def
      namespaceAspect_def nameAspect_def
    using assms by simp
qed

lemma two_candidates_aspects:
  "(\<exists>candidate \<in> set [elsewhere, nodex].
      Namespace candidate = [] \<or> Namespace candidate = Namespace (pod1 [node1Ref])) = True"
  "(\<exists>candidate \<in> set [elsewhere, nodex]. Name candidate = refName node1Ref) = True"
  "(\<exists>candidate \<in> set [elsewhere, nodex]. groupKindAspect forbiddenCluster node1Ref v1 candidate) = True"
  by code_simp+

lemma different_candidates:
  "\<not> nameAspect node1Ref nodex \<and>
   \<not> namespaceAspect (pod1 [node1Ref]) elsewhere \<and>
   \<not> groupKindAspect forbiddenCluster node1Ref v1 elsewhere"
  by code_simp

lemma elsewhere_aspects:
  "(\<exists>candidate \<in> set [elsewhere].
      Namespace candidate = [] \<or> Namespace candidate = Namespace (pod1 [node1Ref])) = False"
  "Namespace (last [elsewhere]) = ''ns2''"
  by code_simp+

theorem C2_aspects_independent_with_priority_witness:
  "[elsewhere, nodex] \<noteq> [] \<and>
   \<not> nameAspect node1Ref nodex \<and>
   \<not> namespaceAspect (pod1 [node1Ref]) elsewhere \<and>
   \<not> groupKindAspect forbiddenCluster node1Ref v1 elsewhere \<and>
   checkActualOwners tableRefMessage forbiddenCluster pods (pod1 [node1Ref]) node1Ref v1
     [elsewhere, nodex] emptyReport = emptyReport \<and>
   checkActualOwners tableRefMessage forbiddenCluster pods (pod1 [node1Ref]) node1Ref v1
     [elsewhere] emptyReport =
     tableRefMessage emptyReport pods (pod1 [node1Ref]) node1Ref levelError
       ''child namespace does not match owner namespace (ns2)''"
proof -
  have two: "[elsewhere, nodex] \<noteq> []" and one: "[elsewhere] \<noteq> []"
    by simp_all
  have "checkActualOwners tableRefMessage forbiddenCluster pods (pod1 [node1Ref]) node1Ref v1
     [elsewhere, nodex] emptyReport = emptyReport"
    unfolding C2_aspects_independent_with_priority [OF two, THEN conjunct2, THEN conjunct2, THEN conjunct2]
      two_candidates_aspects
    by simp
  moreover have "checkActualOwners tableRefMessage forbiddenCluster pods (pod1 [node1Ref]) node1Ref v1
     [elsewhere] emptyReport =
     tableRefMessage emptyReport pods (pod1 [node1Ref]) node1Ref levelError
       ''child namespace does not match owner namespace (ns2)''"
    unfolding C2_aspects_independent_with_priority [OF one, THEN conjunct2, THEN conjunct2, THEN conjunct2]
      elsewhere_aspects
    by simp
  ultimately show ?thesis
    using different_candidates by simp
qed

subsection \<open>Findings that say the owner could not be verified\<close>

lemma unresolved_checks:
  assumes "snd (ParseGroupVersion env (refAPIVersion ownerRef)) = None"
    and "resolveOwner env ownerRef = Inl err"
  shows "orderedChecks env idx child ownerRef =
     (case gvDiscoveryFailures idx (ownerGVOf env ownerRef) of
        Some discoveryErr \<Rightarrow>
          Some (levelWarning,
                ''failed resolving resources for '' @ refAPIVersion ownerRef @ '': '' @ discoveryErr)
      | None \<Rightarrow> Some (levelError, ''cannot resolve owner apiVersion/kind: '' @ err))"
  using assms
  by (simp add: orderedChecks_def checkParse_def checkResolve_def split: option.splits)

lemma missing_checks:
  assumes "snd (ParseGroupVersion env (refAPIVersion ownerRef)) = None"
    and "resolveOwner env ownerRef = Inr mapping"
    and "\<not> (mappingScope mapping = RESTScopeNameNamespace \<and> Namespace child = [])"
    and "byUID idx (refUID ownerRef) = []"
  shows "orderedChecks env idx child ownerRef =
     (case grListErrors idx (gvrGroupResource (mappingResource mapping)) of
        Some listErr \<Rightarrow>
          Some (levelWarning,
                ''could not list parent resource '' @
                grString (gvrGroupResource (mappingResource mapping)))
      | None \<Rightarrow> Some (levelError, ''no object found for uid''))"
proof -
  from assms(3) have ns:
    "(mappingScope mapping = RESTScopeNameNamespace \<and> Namespace child = []) = False"
    by simp
  have "checkParse env ownerRef = None"
    by (simp add: checkParse_def assms(1))
  moreover have "checkResolve env idx ownerRef = None"
    by (simp add: checkResolve_def assms(2))
  moreover have "checkScope env child ownerRef = None"
    by (simp add: checkScope_def assms(2) ns)
  moreover have "checkExistence env idx ownerRef =
     (case grListErrors idx (gvrGroupResource (mappingResource mapping)) of
        Some listErr \<Rightarrow>
          Some (levelWarning,
                ''could not list parent resource '' @
                grString (gvrGroupResource (mappingResource mapping)))
      | None \<Rightarrow> Some (levelError, ''no object found for uid''))"
    by (simp add: checkExistence_def assms(2,4))
  ultimately show ?thesis
    by (simp add: orderedChecks_def split: option.splits)
qed

text \<open>
  C4. When the kind of the owner does not resolve, the finding is a Warning if the
  group/version of the owner reference is in \<open>gvDiscoveryFailures\<close> and an Error
  otherwise. When the UID bucket is empty, the finding is a Warning if the
  \<open>GroupResource\<close> the owner resolves to is in \<open>grListErrors\<close> and the Error
  \<open>no object found for uid\<close> otherwise.
\<close>

theorem C4_unverified_is_warning:
  "(snd (ParseGroupVersion env (refAPIVersion ownerRef)) = None \<and>
    resolveOwner env ownerRef = Inl err \<and>
    gvDiscoveryFailures idx (ownerGVOf env ownerRef) = Some discoveryErr \<longrightarrow>
    checkOwnerRef refMessage env idx gvr child ownerRef rep =
      refMessage rep gvr child ownerRef levelWarning
        (''failed resolving resources for '' @ refAPIVersion ownerRef @ '': '' @ discoveryErr)) \<and>
   (snd (ParseGroupVersion env (refAPIVersion ownerRef)) = None \<and>
    resolveOwner env ownerRef = Inl err \<and>
    gvDiscoveryFailures idx (ownerGVOf env ownerRef) = None \<longrightarrow>
    checkOwnerRef refMessage env idx gvr child ownerRef rep =
      refMessage rep gvr child ownerRef levelError
        (''cannot resolve owner apiVersion/kind: '' @ err)) \<and>
   (snd (ParseGroupVersion env (refAPIVersion ownerRef)) = None \<and>
    resolveOwner env ownerRef = Inr mapping \<and>
    \<not> (mappingScope mapping = RESTScopeNameNamespace \<and> Namespace child = []) \<and>
    byUID idx (refUID ownerRef) = [] \<and>
    grListErrors idx (gvrGroupResource (mappingResource mapping)) = Some listErr \<longrightarrow>
    checkOwnerRef refMessage env idx gvr child ownerRef rep =
      refMessage rep gvr child ownerRef levelWarning
        (''could not list parent resource '' @
         grString (gvrGroupResource (mappingResource mapping)))) \<and>
   (snd (ParseGroupVersion env (refAPIVersion ownerRef)) = None \<and>
    resolveOwner env ownerRef = Inr mapping \<and>
    \<not> (mappingScope mapping = RESTScopeNameNamespace \<and> Namespace child = []) \<and>
    byUID idx (refUID ownerRef) = [] \<and>
    grListErrors idx (gvrGroupResource (mappingResource mapping)) = None \<longrightarrow>
    checkOwnerRef refMessage env idx gvr child ownerRef rep =
      refMessage rep gvr child ownerRef levelError ''no object found for uid'')"
proof (intro conjI impI)
  assume "snd (ParseGroupVersion env (refAPIVersion ownerRef)) = None \<and>
    resolveOwner env ownerRef = Inl err \<and>
    gvDiscoveryFailures idx (ownerGVOf env ownerRef) = Some discoveryErr"
  then show "checkOwnerRef refMessage env idx gvr child ownerRef rep =
      refMessage rep gvr child ownerRef levelWarning
        (''failed resolving resources for '' @ refAPIVersion ownerRef @ '': '' @ discoveryErr)"
    by (simp add: checkOwnerRef_orderedChecks unresolved_checks)
next
  assume "snd (ParseGroupVersion env (refAPIVersion ownerRef)) = None \<and>
    resolveOwner env ownerRef = Inl err \<and>
    gvDiscoveryFailures idx (ownerGVOf env ownerRef) = None"
  then show "checkOwnerRef refMessage env idx gvr child ownerRef rep =
      refMessage rep gvr child ownerRef levelError
        (''cannot resolve owner apiVersion/kind: '' @ err)"
    by (simp add: checkOwnerRef_orderedChecks unresolved_checks)
next
  assume a: "snd (ParseGroupVersion env (refAPIVersion ownerRef)) = None \<and>
    resolveOwner env ownerRef = Inr mapping \<and>
    \<not> (mappingScope mapping = RESTScopeNameNamespace \<and> Namespace child = []) \<and>
    byUID idx (refUID ownerRef) = [] \<and>
    grListErrors idx (gvrGroupResource (mappingResource mapping)) = Some listErr"
  then have "orderedChecks env idx child ownerRef =
      Some (levelWarning,
            ''could not list parent resource '' @
            grString (gvrGroupResource (mappingResource mapping)))"
    using missing_checks [of env ownerRef mapping child idx] by simp
  then show "checkOwnerRef refMessage env idx gvr child ownerRef rep =
      refMessage rep gvr child ownerRef levelWarning
        (''could not list parent resource '' @
         grString (gvrGroupResource (mappingResource mapping)))"
    by (simp add: checkOwnerRef_orderedChecks)
next
  assume a: "snd (ParseGroupVersion env (refAPIVersion ownerRef)) = None \<and>
    resolveOwner env ownerRef = Inr mapping \<and>
    \<not> (mappingScope mapping = RESTScopeNameNamespace \<and> Namespace child = []) \<and>
    byUID idx (refUID ownerRef) = [] \<and>
    grListErrors idx (gvrGroupResource (mappingResource mapping)) = None"
  then have "orderedChecks env idx child ownerRef = Some (levelError, ''no object found for uid'')"
    using missing_checks [of env ownerRef mapping child idx] by simp
  then show "checkOwnerRef refMessage env idx gvr child ownerRef rep =
      refMessage rep gvr child ownerRef levelError ''no object found for uid''"
    by (simp add: checkOwnerRef_orderedChecks)
qed

lemma undiscovered_premises:
  "snd (ParseGroupVersion v1Cluster (refAPIVersion forbiddenRef)) = None \<and>
   resolveOwner v1Cluster forbiddenRef = Inl noMatch \<and>
   gvDiscoveryFailures undiscoveredIndex (ownerGVOf v1Cluster forbiddenRef) = Some ''first''"
  by code_simp

lemma unresolved_premises:
  "snd (ParseGroupVersion v1Cluster (refAPIVersion forbiddenRef)) = None \<and>
   resolveOwner v1Cluster forbiddenRef = Inl noMatch \<and>
   gvDiscoveryFailures emptyIndex (ownerGVOf v1Cluster forbiddenRef) = None"
  by code_simp

lemma unlisted_premises:
  "snd (ParseGroupVersion forbiddenCluster (refAPIVersion forbiddenRef)) = None \<and>
   resolveOwner forbiddenCluster forbiddenRef = Inr forbiddenMapping \<and>
   \<not> (mappingScope forbiddenMapping = RESTScopeNameNamespace \<and> Namespace (pod1 [forbiddenRef]) = []) \<and>
   byUID unlistedIndex (refUID forbiddenRef) = [] \<and>
   grListErrors unlistedIndex (gvrGroupResource (mappingResource forbiddenMapping)) = Some ''not authorized''"
  by code_simp

lemma missing_premises:
  "snd (ParseGroupVersion forbiddenCluster (refAPIVersion forbiddenRef)) = None \<and>
   resolveOwner forbiddenCluster forbiddenRef = Inr forbiddenMapping \<and>
   \<not> (mappingScope forbiddenMapping = RESTScopeNameNamespace \<and> Namespace (pod1 [forbiddenRef]) = []) \<and>
   byUID emptyIndex (refUID forbiddenRef) = [] \<and>
   grListErrors emptyIndex (gvrGroupResource (mappingResource forbiddenMapping)) = None"
  by code_simp

theorem C4_unverified_is_warning_witness:
  "checkOwnerRef tableRefMessage v1Cluster undiscoveredIndex pods (pod1 [forbiddenRef]) forbiddenRef emptyReport =
     tableRefMessage emptyReport pods (pod1 [forbiddenRef]) forbiddenRef levelWarning
       (''failed resolving resources for '' @ refAPIVersion forbiddenRef @ '': '' @ ''first'') \<and>
   checkOwnerRef tableRefMessage v1Cluster emptyIndex pods (pod1 [forbiddenRef]) forbiddenRef emptyReport =
     tableRefMessage emptyReport pods (pod1 [forbiddenRef]) forbiddenRef levelError
       (''cannot resolve owner apiVersion/kind: '' @ noMatch) \<and>
   checkOwnerRef tableRefMessage forbiddenCluster unlistedIndex pods (pod1 [forbiddenRef]) forbiddenRef emptyReport =
     tableRefMessage emptyReport pods (pod1 [forbiddenRef]) forbiddenRef levelWarning
       (''could not list parent resource '' @
        grString (gvrGroupResource (mappingResource forbiddenMapping))) \<and>
   checkOwnerRef tableRefMessage forbiddenCluster emptyIndex pods (pod1 [forbiddenRef]) forbiddenRef emptyReport =
     tableRefMessage emptyReport pods (pod1 [forbiddenRef]) forbiddenRef levelError
       ''no object found for uid''"
proof (intro conjI)
  show "checkOwnerRef tableRefMessage v1Cluster undiscoveredIndex pods (pod1 [forbiddenRef]) forbiddenRef emptyReport =
     tableRefMessage emptyReport pods (pod1 [forbiddenRef]) forbiddenRef levelWarning
       (''failed resolving resources for '' @ refAPIVersion forbiddenRef @ '': '' @ ''first'')"
    using C4_unverified_is_warning
      [of v1Cluster forbiddenRef noMatch undiscoveredIndex "''first''" tableRefMessage pods
          "pod1 [forbiddenRef]" emptyReport, THEN conjunct1]
      undiscovered_premises
    by (rule mp)
  show "checkOwnerRef tableRefMessage v1Cluster emptyIndex pods (pod1 [forbiddenRef]) forbiddenRef emptyReport =
     tableRefMessage emptyReport pods (pod1 [forbiddenRef]) forbiddenRef levelError
       (''cannot resolve owner apiVersion/kind: '' @ noMatch)"
    using C4_unverified_is_warning
      [of v1Cluster forbiddenRef noMatch emptyIndex _ tableRefMessage pods
          "pod1 [forbiddenRef]" emptyReport, THEN conjunct2, THEN conjunct1]
      unresolved_premises
    by (rule mp)
  show "checkOwnerRef tableRefMessage forbiddenCluster unlistedIndex pods (pod1 [forbiddenRef]) forbiddenRef emptyReport =
     tableRefMessage emptyReport pods (pod1 [forbiddenRef]) forbiddenRef levelWarning
       (''could not list parent resource '' @
        grString (gvrGroupResource (mappingResource forbiddenMapping)))"
    using C4_unverified_is_warning
      [of forbiddenCluster forbiddenRef _ unlistedIndex _ tableRefMessage pods
          "pod1 [forbiddenRef]" emptyReport forbiddenMapping "''not authorized''",
       THEN conjunct2, THEN conjunct2, THEN conjunct1]
      unlisted_premises
    by (rule mp)
  show "checkOwnerRef tableRefMessage forbiddenCluster emptyIndex pods (pod1 [forbiddenRef]) forbiddenRef emptyReport =
     tableRefMessage emptyReport pods (pod1 [forbiddenRef]) forbiddenRef levelError
       ''no object found for uid''"
    using C4_unverified_is_warning
      [of forbiddenCluster forbiddenRef _ emptyIndex _ tableRefMessage pods
          "pod1 [forbiddenRef]" emptyReport forbiddenMapping,
       THEN conjunct2, THEN conjunct2, THEN conjunct2]
      missing_premises
    by (rule mp)
qed

subsection \<open>The group/kind aspect\<close>

text \<open>
  C5. One pass of the loop over the candidates sets \<open>groupKindOk\<close> exactly when the
  candidate has an empty apiVersion or an empty kind, or the group parsed from its
  apiVersion is the group of the owner reference and its kind, as it is or lower-cased,
  is the kind of the owner reference (the kind of the owner reference is never
  lower-cased). So the flag after the loop says that some candidate is so, and a bucket
  of a candidate without apiVersion and kind and a candidate that matches in name,
  namespace, group and kind gives no finding, in either order.
\<close>

theorem C5_group_kind_aspect:
  "groupKindOk (compareOwner env child ownerRef ownerGV c candidate) =
     (groupKindOk c \<or>
      APIVersion candidate = [] \<or> Kind candidate = [] \<or>
      (gvGroup (fst (ParseGroupVersion env (APIVersion candidate))) = gvGroup ownerGV \<and>
       (Kind candidate = refKind ownerRef \<or> ToLower env (Kind candidate) = refKind ownerRef))) \<and>
   groupKindOk (foldl (compareOwner env child ownerRef ownerGV) ownerCheckInit actualOwners) =
     (\<exists>candidate \<in> set actualOwners.
        APIVersion candidate = [] \<or> Kind candidate = [] \<or>
        (gvGroup (fst (ParseGroupVersion env (APIVersion candidate))) = gvGroup ownerGV \<and>
         (Kind candidate = refKind ownerRef \<or> ToLower env (Kind candidate) = refKind ownerRef))) \<and>
   (snd (ParseGroupVersion env (refAPIVersion ownerRef)) = None \<and>
    resolveOwner env ownerRef = Inr mapping \<and>
    \<not> (mappingScope mapping = RESTScopeNameNamespace \<and> Namespace child = []) \<and>
    (byUID idx (refUID ownerRef) = [partialOwner, fullOwner] \<or>
     byUID idx (refUID ownerRef) = [fullOwner, partialOwner]) \<and>
    APIVersion partialOwner = [] \<and> Kind partialOwner = [] \<and>
    Name fullOwner = refName ownerRef \<and>
    (Namespace fullOwner = [] \<or> Namespace fullOwner = Namespace child) \<and>
    gvGroup (fst (ParseGroupVersion env (APIVersion fullOwner))) = gvGroup (ownerGVOf env ownerRef) \<and>
    Kind fullOwner = refKind ownerRef \<longrightarrow>
    checkOwnerRef refMessage env idx gvr child ownerRef rep = rep)"
proof (intro conjI impI)
  show "groupKindOk (compareOwner env child ownerRef ownerGV c candidate) =
     (groupKindOk c \<or>
      APIVersion candidate = [] \<or> Kind candidate = [] \<or>
      (gvGroup (fst (ParseGroupVersion env (APIVersion candidate))) = gvGroup ownerGV \<and>
       (Kind candidate = refKind ownerRef \<or> ToLower env (Kind candidate) = refKind ownerRef)))"
    by (simp add: compareOwner_groupKindOk groupKindAspect_def)
  show "groupKindOk (foldl (compareOwner env child ownerRef ownerGV) ownerCheckInit actualOwners) =
     (\<exists>candidate \<in> set actualOwners.
        APIVersion candidate = [] \<or> Kind candidate = [] \<or>
        (gvGroup (fst (ParseGroupVersion env (APIVersion candidate))) = gvGroup ownerGV \<and>
         (Kind candidate = refKind ownerRef \<or> ToLower env (Kind candidate) = refKind ownerRef)))"
    by (simp add: compareOwners_ok groupKindAspect_def)
next
  assume a: "snd (ParseGroupVersion env (refAPIVersion ownerRef)) = None \<and>
    resolveOwner env ownerRef = Inr mapping \<and>
    \<not> (mappingScope mapping = RESTScopeNameNamespace \<and> Namespace child = []) \<and>
    (byUID idx (refUID ownerRef) = [partialOwner, fullOwner] \<or>
     byUID idx (refUID ownerRef) = [fullOwner, partialOwner]) \<and>
    APIVersion partialOwner = [] \<and> Kind partialOwner = [] \<and>
    Name fullOwner = refName ownerRef \<and>
    (Namespace fullOwner = [] \<or> Namespace fullOwner = Namespace child) \<and>
    gvGroup (fst (ParseGroupVersion env (APIVersion fullOwner))) = gvGroup (ownerGVOf env ownerRef) \<and>
    Kind fullOwner = refKind ownerRef"
  then have full: "fullOwner \<in> set (byUID idx (refUID ownerRef))"
    by auto
  have "nameAspect ownerRef fullOwner" "namespaceAspect child fullOwner"
    "groupKindAspect env ownerRef (ownerGVOf env ownerRef) fullOwner"
    using a by (simp_all add: nameAspect_def namespaceAspect_def groupKindAspect_def)
  with full have
    "\<exists>c \<in> set (byUID idx (refUID ownerRef)). nameAspect ownerRef c"
    "\<exists>c \<in> set (byUID idx (refUID ownerRef)). namespaceAspect child c"
    "\<exists>c \<in> set (byUID idx (refUID ownerRef)). groupKindAspect env ownerRef (ownerGVOf env ownerRef) c"
    by blast+
  then have "orderedChecks env idx child ownerRef = None"
    using a by (intro valid_no_finding [of env ownerRef mapping child idx]) simp_all
  then show "checkOwnerRef refMessage env idx gvr child ownerRef rep = rep"
    by (simp add: checkOwnerRef_orderedChecks)
qed

lemma partial_and_full:
  "snd (ParseGroupVersion forbiddenCluster (refAPIVersion node1Ref)) = None \<and>
   resolveOwner forbiddenCluster node1Ref = Inr \<lparr>mappingResource = nodes, mappingScope = RESTScopeNameRoot\<rparr> \<and>
   \<not> (mappingScope \<lparr>mappingResource = nodes, mappingScope = RESTScopeNameRoot\<rparr> = RESTScopeNameNamespace \<and>
      Namespace (pod1 [node1Ref]) = []) \<and>
   (byUID (indexOf [partialNode, node1]) (refUID node1Ref) = [partialNode, node1] \<or>
    byUID (indexOf [partialNode, node1]) (refUID node1Ref) = [node1, partialNode]) \<and>
   APIVersion partialNode = [] \<and> Kind partialNode = [] \<and>
   Name node1 = refName node1Ref \<and>
   (Namespace node1 = [] \<or> Namespace node1 = Namespace (pod1 [node1Ref])) \<and>
   gvGroup (fst (ParseGroupVersion forbiddenCluster (APIVersion node1))) =
     gvGroup (ownerGVOf forbiddenCluster node1Ref) \<and>
   Kind node1 = refKind node1Ref"
  by code_simp

lemma lower_case_kinds:
  "(groupKindOk ownerCheckInit \<or>
    APIVersion node1 = [] \<or> Kind node1 = [] \<or>
    (gvGroup (fst (ParseGroupVersion forbiddenCluster (APIVersion node1))) = gvGroup v1 \<and>
     (Kind node1 = refKind lowerRef \<or> ToLower forbiddenCluster (Kind node1) = refKind lowerRef))) = True"
  "(groupKindOk ownerCheckInit \<or>
    APIVersion (node1\<lparr>Kind := ''node''\<rparr>) = [] \<or> Kind (node1\<lparr>Kind := ''node''\<rparr>) = [] \<or>
    (gvGroup (fst (ParseGroupVersion forbiddenCluster (APIVersion (node1\<lparr>Kind := ''node''\<rparr>)))) = gvGroup v1 \<and>
     (Kind (node1\<lparr>Kind := ''node''\<rparr>) = refKind node1Ref \<or>
      ToLower forbiddenCluster (Kind (node1\<lparr>Kind := ''node''\<rparr>)) = refKind node1Ref))) = False"
  by code_simp+

theorem C5_group_kind_aspect_witness:
  "groupKindOk (compareOwner forbiddenCluster (pod1 [lowerRef]) lowerRef v1 ownerCheckInit node1) \<and>
   \<not> groupKindOk (compareOwner forbiddenCluster (pod1 [node1Ref]) node1Ref v1 ownerCheckInit
                   (node1\<lparr>Kind := ''node''\<rparr>)) \<and>
   checkOwnerRef tableRefMessage forbiddenCluster (indexOf [partialNode, node1]) pods
     (pod1 [node1Ref]) node1Ref emptyReport = emptyReport"
proof (intro conjI)
  show "groupKindOk (compareOwner forbiddenCluster (pod1 [lowerRef]) lowerRef v1 ownerCheckInit node1)"
    unfolding C5_group_kind_aspect [THEN conjunct1] lower_case_kinds by (rule TrueI)
  show "\<not> groupKindOk (compareOwner forbiddenCluster (pod1 [node1Ref]) node1Ref v1 ownerCheckInit
                   (node1\<lparr>Kind := ''node''\<rparr>))"
    unfolding C5_group_kind_aspect [THEN conjunct1] lower_case_kinds by (rule notI, erule FalseE)
  show "checkOwnerRef tableRefMessage forbiddenCluster (indexOf [partialNode, node1]) pods
     (pod1 [node1Ref]) node1Ref emptyReport = emptyReport"
    using C5_group_kind_aspect
      [where env = forbiddenCluster and ownerRef = node1Ref
         and mapping = "\<lparr>mappingResource = nodes, mappingScope = RESTScopeNameRoot\<rparr>"
         and child = "pod1 [node1Ref]" and idx = "indexOf [partialNode, node1]"
         and partialOwner = partialNode and fullOwner = node1
         and refMessage = tableRefMessage and gvr = pods and rep = emptyReport,
       THEN conjunct2, THEN conjunct2]
      partial_and_full
    by (rule mp)
qed

subsection \<open>The order of the resource types\<close>

lemma gvrLess_key: "gvrLess a b = (gvrKey a < gvrKey b)"
  by (auto simp: gvrLess_def gvrKey_def)

lemma insertSlice_insort: "insertSlice gvrLess x xs = insort_key gvrKey x xs"
  by (induction xs) (auto simp: gvrLess_key)

lemma sortedGVRs_sort: "sortedGVRs gvrMap = sort_key gvrKey gvrMap"
  unfolding sortedGVRs_def
  by (induction gvrMap) (simp_all add: insertSlice_insort)

lemma inj_gvrKey: "inj_on gvrKey A"
  by (rule inj_onI) (simp add: gvrKey_def)

lemma sortedGVRs_unique:
  assumes "mset gvrMap' = mset gvrMap"
  shows "sortedGVRs gvrMap' = sortedGVRs gvrMap"
  unfolding sortedGVRs_sort
proof (rule sort_key_inj_key_eq)
  show "mset gvrMap' = mset (sort_key gvrKey gvrMap)"
    using assms by simp
  show "inj_on gvrKey (set gvrMap')"
    by (rule inj_gvrKey)
  show "sorted (map gvrKey (sort_key gvrKey gvrMap))"
    by (rule sorted_sort_key)
qed

lemma sortedGVRs_distinct: "distinct gvrMap \<Longrightarrow> distinct (sortedGVRs gvrMap)"
  by (simp add: sortedGVRs_sort)

lemma sortedGVRs_set: "set (sortedGVRs gvrMap) = set gvrMap"
  by (simp add: sortedGVRs_sort)

subsection \<open>The loops of the validation\<close>

lemma emitAll_simps [simp]:
  "emitAll refMessage rep [] = rep"
  "emitAll refMessage rep (fs @ gs) = emitAll refMessage (emitAll refMessage rep fs) gs"
  by (simp_all add: emitAll_def)

lemma checkOwnerRef_emitAll:
  "checkOwnerRef refMessage env idx gvr child ownerRef rep =
     emitAll refMessage rep (findingsOfRef env idx gvr child ownerRef)"
  by (simp add: checkOwnerRef_orderedChecks findingsOfRef_def emitAll_def split: option.splits)

lemma foldl_checkOwnerRef:
  "foldl (\<lambda>r ownerRef. checkOwnerRef refMessage env idx gvr child ownerRef r) rep ownerRefs =
     emitAll refMessage rep (concat (map (findingsOfRef env idx gvr child) ownerRefs))"
  by (induction ownerRefs arbitrary: rep) (simp_all add: checkOwnerRef_emitAll)

lemma checkChild_emitAll:
  "checkChild refMessage env idx gvr rep child =
     emitAll refMessage rep (concat (map (findingsOfRef env idx gvr child) (OwnerReferences child)))"
  by (simp add: checkChild_def foldl_checkOwnerRef)

lemma foldl_checkChild:
  "foldl (checkChild refMessage env idx gvr) rep children =
     emitAll refMessage rep
       (concat (map (\<lambda>child. concat (map (findingsOfRef env idx gvr child) (OwnerReferences child)))
                  children))"
  by (induction children arbitrary: rep) (simp_all add: checkChild_emitAll)

lemma checkType_emitAll:
  "checkType refMessage env idx rep gvr = flush (emitAll refMessage rep (findingsOfType env idx gvr))"
  by (simp add: checkType_def foldl_checkChild findingsOfType_def)

lemma checkAll_emitAll:
  "checkAll refMessage env idx gvrs rep =
     foldl (\<lambda>r gvr. flush (emitAll refMessage r (findingsOfType env idx gvr))) rep gvrs"
  unfolding checkAll_def
  by (rule arg_cong [where f = "\<lambda>f. foldl f rep gvrs"]) (simp add: fun_eq_iff checkType_emitAll)

subsection \<open>The run as a whole\<close>

lemma tolerateDiscovery_Inr:
  "tolerateDiscovery d s = Inr s' \<Longrightarrow> s' = fold noteDiscoveryFailure (failedGroups d) s"
  by (cases d) simp_all

lemma card_dom_recorded:
  assumes "finite (dom m)"
  shows "card (dom (m ++ map_of (recorded m groups))) = card (dom m) + length (recorded m groups)"
proof -
  have d: "dom (m ++ map_of (recorded m groups)) = dom m \<union> fst ` set (recorded m groups)"
    by (auto simp: dom_map_of_conv_image_fst)
  have disj: "dom m \<inter> fst ` set (recorded m groups) = {}"
    by (auto simp: recorded_keys)
  have "card (fst ` set (recorded m groups)) = length (recorded m groups)"
    using distinct_card [OF recorded_distinct [of m groups]] by simp
  then show ?thesis
    unfolding d using assms disj by (simp add: card_Un_disjoint)
qed

lemma discovered_fold:
  assumes "discovered (idx, rep)"
  shows "discovered (fold noteDiscoveryFailure groups (idx, rep))"
proof -
  from assms have fin: "finite (dom (gvDiscoveryFailures idx))"
    by (simp add: discovered_def)
  have "finite (dom (gvDiscoveryFailures idx ++
      map_of (recorded (gvDiscoveryFailures idx) groups)))"
    using fin by (simp add: finite_dom_map_of)
  then show ?thesis
    using assms card_dom_recorded [OF fin, of groups]
    by (simp add: fold_noteDiscoveryFailure discovered_def)
qed

lemma discovered_empty: "discovered (emptyIndex, emptyReport)"
  by (simp add: discovered_def emptyIndex_def emptyReport_def)

lemma discover_discovered:
  assumes "discover env = Inr s"
  shows "discovered s"
proof -
  obtain s1 where 1: "tolerateDiscovery (GetAPIGroupResources env) (emptyIndex, emptyReport) = Inr s1"
    and 2: "tolerateDiscovery (ServerPreferredResources env) s1 = Inr s"
    using assms by (auto simp: discover_def split: sum.splits)
  have "discovered s1"
    using tolerateDiscovery_Inr [OF 1] discovered_fold [OF discovered_empty] by simp
  then show ?thesis
    using tolerateDiscovery_Inr [OF 2] discovered_fold [of "fst s1" "snd s1"] by simp
qed

lemma Run_Inr:
  assumes "Run env v = Inr (idx, rep)"
  obtains s gvrMap where
    "discover env = Inr s"
    "GroupVersionResources env = Inr gvrMap"
    "idx = fst (fetchAll env (sortedGVRs gvrMap) s)"
    "\<not> nilFuncCalled (checkAll (outputRefMessage v) env idx (sortedGVRs gvrMap)
         (snd (fetchAll env (sortedGVRs gvrMap) s)))"
    "rep = (checkAll (outputRefMessage v) env idx (sortedGVRs gvrMap)
              (snd (fetchAll env (sortedGVRs gvrMap) s)))
           \<lparr>stderr := stderr (checkAll (outputRefMessage v) env idx (sortedGVRs gvrMap)
                         (snd (fetchAll env (sortedGVRs gvrMap) s))) @
                       [summary (checkAll (outputRefMessage v) env idx (sortedGVRs gvrMap)
                         (snd (fetchAll env (sortedGVRs gvrMap) s)))]\<rparr>"
proof -
  from assms obtain s where s: "discover env = Inr s"
    by (auto simp: Run_def split: sum.splits)
  from assms s obtain gvrMap where g: "GroupVersionResources env = Inr gvrMap"
    by (auto simp: Run_def split: sum.splits)
  obtain idx1 rep1 where f: "fetchAll env (sortedGVRs gvrMap) s = (idx1, rep1)"
    by (cases "fetchAll env (sortedGVRs gvrMap) s")
  from assms have r: "\<not> nilFuncCalled (checkAll (outputRefMessage v) env idx1 (sortedGVRs gvrMap) rep1)"
    "idx = idx1"
    "rep = (checkAll (outputRefMessage v) env idx1 (sortedGVRs gvrMap) rep1)
       \<lparr>stderr := stderr (checkAll (outputRefMessage v) env idx1 (sortedGVRs gvrMap) rep1) @
                  [summary (checkAll (outputRefMessage v) env idx1 (sortedGVRs gvrMap) rep1)]\<rparr>"
    by (auto simp: Run_def s g f Let_def split: if_splits)
  show ?thesis
    using that [OF s g] r by (simp add: f)
qed

lemma Run_fetched:
  assumes "Run env v = Inr (idx, rep)" and "GroupVersionResources env = Inr gvrMap"
    and "distinct gvrMap" and "gvr \<in> set gvrMap"
  shows "byGVR idx gvr = map (backfilled (KindFor env gvr)) (retrieved (ListPages env gvr))"
proof -
  from assms(1) obtain s gvrMap' where s: "discover env = Inr s"
    and g: "GroupVersionResources env = Inr gvrMap'"
    and idx: "idx = fst (fetchAll env (sortedGVRs gvrMap') s)"
    by (rule Run_Inr)
  from g assms(2) have [simp]: "gvrMap' = gvrMap" by simp
  have "byGVR (fst s) = (\<lambda>gvr. [])"
    using discover_discovered [OF s] by (simp add: discovered_def split: prod.splits)
  moreover have "fillIn (KindFor env gvr) = backfilled (KindFor env gvr)"
    by (rule ext) (rule fillIn_backfilled)
  ultimately show ?thesis
    using fetchAll_byGVR [of "sortedGVRs gvrMap" env "fst s" "snd s" gvr] assms(3,4)
    by (simp add: idx sortedGVRs_distinct sortedGVRs_set)
qed

lemma Run_stdout:
  assumes "Run env v = Inr (idx, rep)" and "GroupVersionResources env = Inr gvrMap"
    and "discover env = Inr s"
  shows "stdout rep =
     stdout (foldl (\<lambda>r gvr. flush (emitAll (outputRefMessage v) r (findingsOfType env idx gvr)))
               (snd (fetchAll env (sortedGVRs gvrMap) s)) (sortedGVRs gvrMap))"
proof -
  from assms(1) obtain s' gvrMap' where s: "discover env = Inr s'"
    and g: "GroupVersionResources env = Inr gvrMap'"
    and rep: "rep = (checkAll (outputRefMessage v) env idx (sortedGVRs gvrMap')
              (snd (fetchAll env (sortedGVRs gvrMap') s')))
           \<lparr>stderr := stderr (checkAll (outputRefMessage v) env idx (sortedGVRs gvrMap')
                         (snd (fetchAll env (sortedGVRs gvrMap') s'))) @
                       [summary (checkAll (outputRefMessage v) env idx (sortedGVRs gvrMap')
                         (snd (fetchAll env (sortedGVRs gvrMap') s')))]\<rparr>"
    by (rule Run_Inr)
  from g s assms(2,3) have [simp]: "gvrMap' = gvrMap" "s' = s" by simp_all
  show ?thesis
    by (simp add: rep checkAll_emitAll)
qed

lemma upper_before_lower: "(''Z'' :: string) < ''a''"
  by code_simp

text \<open>
  C6. \<open>less\<close> compares the triples (group, version, resource) lexicographically, each
  part as a byte string, so an empty group comes before any other and an upper-case
  letter before a lower-case one. The sorted slice is ordered by that triple and has
  the elements of \<open>gvrMap\<close>, whatever the order in which the map was iterated. The
  validation hands to \<open>outputRefMessage\<close> the findings of the resource types in the
  order of the slice, flushing after each type; within a type the findings of its
  objects in their order in \<open>byGVR\<close>, which is the order in which the pages delivered
  them; within an object the findings of its owner references in the order declared.
\<close>

theorem C6_sorted_types_ordered_findings:
  "gvrLess a b =
     ((gvrGroup a, gvrVersion a, gvrResource a) < (gvrGroup b, gvrVersion b, gvrResource b)) \<and>
   sorted (map (\<lambda>gvr. (gvrGroup gvr, gvrVersion gvr, gvrResource gvr)) (sortedGVRs gvrMap)) \<and>
   mset (sortedGVRs gvrMap) = mset gvrMap \<and>
   (mset gvrMap' = mset gvrMap \<longrightarrow> sortedGVRs gvrMap' = sortedGVRs gvrMap) \<and>
   (gvrGroup a = [] \<and> gvrGroup b \<noteq> [] \<longrightarrow> gvrLess a b) \<and>
   gvrLess (a\<lparr>gvrGroup := ''Z''\<rparr>) (b\<lparr>gvrGroup := ''a''\<rparr>) \<and>
   checkAll refMessage env idx gvrs rep =
     foldl (\<lambda>r gvr. flush (emitAll refMessage r
              (concat (map (\<lambda>child. concat (map (findingsOfRef env idx gvr child)
                                               (OwnerReferences child)))
                         (byGVR idx gvr)))))
       rep gvrs \<and>
   (Run env v = Inr (idx, rep) \<and> GroupVersionResources env = Inr gvrMap \<and> discover env = Inr s \<longrightarrow>
    stdout rep =
      stdout (foldl (\<lambda>r gvr. flush (emitAll (outputRefMessage v) r (findingsOfType env idx gvr)))
                (snd (fetchAll env (sortedGVRs gvrMap) s)) (sortedGVRs gvrMap)) \<and>
    (distinct gvrMap \<and> gvr \<in> set gvrMap \<longrightarrow>
     byGVR idx gvr = map (backfilled (KindFor env gvr)) (retrieved (ListPages env gvr))))"
proof (intro conjI impI)
  show "gvrLess a b =
     ((gvrGroup a, gvrVersion a, gvrResource a) < (gvrGroup b, gvrVersion b, gvrResource b))"
    by (simp only: gvrLess_key gvrKey_def)
  have key: "(\<lambda>gvr. (gvrGroup gvr, gvrVersion gvr, gvrResource gvr)) = gvrKey"
    by (simp add: fun_eq_iff gvrKey_def)
  show "sorted (map (\<lambda>gvr. (gvrGroup gvr, gvrVersion gvr, gvrResource gvr)) (sortedGVRs gvrMap))"
    unfolding key sortedGVRs_sort by (rule sorted_sort_key)
  show "mset (sortedGVRs gvrMap) = mset gvrMap"
    by (simp add: sortedGVRs_sort)
  show "sortedGVRs gvrMap' = sortedGVRs gvrMap" if "mset gvrMap' = mset gvrMap"
    using that by (rule sortedGVRs_unique)
  show "gvrLess a b" if "gvrGroup a = [] \<and> gvrGroup b \<noteq> []"
  proof -
    from that have "gvrGroup a < gvrGroup b"
      by (cases "gvrGroup b") simp_all
    with that show ?thesis
      by (auto simp: gvrLess_def)
  qed
  show "gvrLess (a\<lparr>gvrGroup := ''Z''\<rparr>) (b\<lparr>gvrGroup := ''a''\<rparr>)"
    using upper_before_lower by (simp add: gvrLess_def)
  show "checkAll refMessage env idx gvrs rep =
     foldl (\<lambda>r gvr. flush (emitAll refMessage r
              (concat (map (\<lambda>child. concat (map (findingsOfRef env idx gvr child)
                                               (OwnerReferences child)))
                         (byGVR idx gvr)))))
       rep gvrs"
    by (simp only: checkAll_emitAll findingsOfType_def)
next
  assume "Run env v = Inr (idx, rep) \<and> GroupVersionResources env = Inr gvrMap \<and> discover env = Inr s"
  then show "stdout rep =
      stdout (foldl (\<lambda>r gvr. flush (emitAll (outputRefMessage v) r (findingsOfType env idx gvr)))
                (snd (fetchAll env (sortedGVRs gvrMap) s)) (sortedGVRs gvrMap))"
    using Run_stdout [of env v idx rep gvrMap s] by simp
next
  assume "Run env v = Inr (idx, rep) \<and> GroupVersionResources env = Inr gvrMap \<and> discover env = Inr s"
    and "distinct gvrMap \<and> gvr \<in> set gvrMap"
  then show "byGVR idx gvr = map (backfilled (KindFor env gvr)) (retrieved (ListPages env gvr))"
    using Run_fetched [of env v idx rep gvrMap gvr] by simp
qed


lemma forbidden_types:
  "sortedGVRs [nodes, pods, forbiddenGVR] = [nodes, pods, forbiddenGVR]"
  "gvrGroup nodes = [] \<and> gvrGroup forbiddenGVR \<noteq> []"
  "distinct (map arGVR forbiddenResources) \<and> pods \<in> set (map arGVR forbiddenResources)"
  by code_simp+

lemma forbidden_discovery:
  "GroupVersionResources forbiddenCluster = Inr (map arGVR forbiddenResources)"
  "discover forbiddenCluster = Inr (emptyIndex, emptyReport)"
  by (simp_all add: forbiddenCluster_def testCluster_def discover_def)

theorem C6_sorted_types_ordered_findings_witness:
  "sortedGVRs [forbiddenGVR, pods, nodes] = [nodes, pods, forbiddenGVR] \<and>
   gvrLess nodes forbiddenGVR \<and>
   (\<exists>idx rep.
      Run forbiddenCluster \<lparr>Output = []\<rparr> = Inr (idx, rep) \<and>
      byGVR idx pods =
        map (backfilled (KindFor forbiddenCluster pods)) (retrieved (ListPages forbiddenCluster pods)) \<and>
      stdout rep =
        stdout (foldl (\<lambda>r gvr. flush (emitAll (outputRefMessage \<lparr>Output = []\<rparr>) r
                                     (findingsOfType forbiddenCluster idx gvr)))
                  (snd (fetchAll forbiddenCluster (sortedGVRs (map arGVR forbiddenResources))
                         (emptyIndex, emptyReport)))
                  (sortedGVRs (map arGVR forbiddenResources))))"
proof (intro conjI)
  have "mset [forbiddenGVR, pods, nodes] = mset [nodes, pods, forbiddenGVR]"
    by simp
  with C6_sorted_types_ordered_findings
      [where gvrMap' = "[forbiddenGVR, pods, nodes]" and gvrMap = "[nodes, pods, forbiddenGVR]",
       THEN conjunct2, THEN conjunct2, THEN conjunct2, THEN conjunct1]
  have "sortedGVRs [forbiddenGVR, pods, nodes] = sortedGVRs [nodes, pods, forbiddenGVR]"
    by (rule mp)
  then show "sortedGVRs [forbiddenGVR, pods, nodes] = [nodes, pods, forbiddenGVR]"
    by (simp only: forbidden_types(1))
  show "gvrLess nodes forbiddenGVR"
    using C6_sorted_types_ordered_findings
      [where a = nodes and b = forbiddenGVR,
       THEN conjunct2, THEN conjunct2, THEN conjunct2, THEN conjunct2, THEN conjunct1]
      forbidden_types(2)
    by (rule mp)
  obtain idx rep where run: "Run forbiddenCluster \<lparr>Output = []\<rparr> = Inr (idx, rep)"
    using forbidden_run_counts by (auto split: sum.splits)
  note all = C6_sorted_types_ordered_findings
      [where env = forbiddenCluster and v = "\<lparr>Output = []\<rparr>" and idx = idx and rep = rep
         and gvrMap = "map arGVR forbiddenResources" and s = "(emptyIndex, emptyReport)"
         and gvr = pods,
       THEN conjunct2, THEN conjunct2, THEN conjunct2, THEN conjunct2, THEN conjunct2,
       THEN conjunct2, THEN conjunct2]
  have both: "stdout rep =
        stdout (foldl (\<lambda>r gvr. flush (emitAll (outputRefMessage \<lparr>Output = []\<rparr>) r
                                     (findingsOfType forbiddenCluster idx gvr)))
                  (snd (fetchAll forbiddenCluster (sortedGVRs (map arGVR forbiddenResources))
                         (emptyIndex, emptyReport)))
                  (sortedGVRs (map arGVR forbiddenResources))) \<and>
      (distinct (map arGVR forbiddenResources) \<and> pods \<in> set (map arGVR forbiddenResources) \<longrightarrow>
       byGVR idx pods =
        map (backfilled (KindFor forbiddenCluster pods)) (retrieved (ListPages forbiddenCluster pods)))"
    using all run forbidden_discovery by blast
  then have "byGVR idx pods =
        map (backfilled (KindFor forbiddenCluster pods)) (retrieved (ListPages forbiddenCluster pods))"
    using forbidden_types(3) by blast
  with both run show "\<exists>idx rep.
      Run forbiddenCluster \<lparr>Output = []\<rparr> = Inr (idx, rep) \<and>
      byGVR idx pods =
        map (backfilled (KindFor forbiddenCluster pods)) (retrieved (ListPages forbiddenCluster pods)) \<and>
      stdout rep =
        stdout (foldl (\<lambda>r gvr. flush (emitAll (outputRefMessage \<lparr>Output = []\<rparr>) r
                                     (findingsOfType forbiddenCluster idx gvr)))
                  (snd (fetchAll forbiddenCluster (sortedGVRs (map arGVR forbiddenResources))
                         (emptyIndex, emptyReport)))
                  (sortedGVRs (map arGVR forbiddenResources)))"
    by blast
qed

subsection \<open>The counters\<close>

lemma firstFiring_Some: "firstFiring checks = Some f \<Longrightarrow> Some f \<in> set checks"
  by (induction checks rule: firstFiring.induct) auto

lemma checkParse_level:
  "checkParse env ownerRef = Some (level, msg) \<Longrightarrow> level = levelError \<or> level = levelWarning"
  by (auto simp: checkParse_def split: option.splits)

lemma checkResolve_level:
  "checkResolve env idx ownerRef = Some (level, msg) \<Longrightarrow> level = levelError \<or> level = levelWarning"
  by (auto simp: checkResolve_def split: sum.splits option.splits)

lemma checkScope_level:
  "checkScope env child ownerRef = Some (level, msg) \<Longrightarrow> level = levelError \<or> level = levelWarning"
  by (auto simp: checkScope_def split: sum.splits if_splits)

lemma checkExistence_level:
  "checkExistence env idx ownerRef = Some (level, msg) \<Longrightarrow> level = levelError \<or> level = levelWarning"
  by (auto simp: checkExistence_def split: sum.splits option.splits if_splits)

lemma checkCandidates_level:
  "checkCandidates env child ownerRef ownerGV bucket = Some (level, msg) \<Longrightarrow>
   level = levelError \<or> level = levelWarning"
  unfolding checkCandidates_def
  by (simp split: if_splits)

lemma orderedChecks_level:
  assumes "orderedChecks env idx child ownerRef = Some (level, msg)"
  shows "level = levelError \<or> level = levelWarning"
proof -
  from assms have "Some (level, msg) \<in>
      set [checkParse env ownerRef, checkResolve env idx ownerRef, checkScope env child ownerRef,
           checkExistence env idx ownerRef,
           checkCandidates env child ownerRef (ownerGVOf env ownerRef) (byUID idx (refUID ownerRef))]"
    unfolding orderedChecks_def by (rule firstFiring_Some)
  then consider "checkParse env ownerRef = Some (level, msg)"
    | "checkResolve env idx ownerRef = Some (level, msg)"
    | "checkScope env child ownerRef = Some (level, msg)"
    | "checkExistence env idx ownerRef = Some (level, msg)"
    | "checkCandidates env child ownerRef (ownerGVOf env ownerRef) (byUID idx (refUID ownerRef)) =
        Some (level, msg)"
    by auto
  then show ?thesis
    by cases (erule checkParse_level checkResolve_level checkScope_level checkExistence_level
        checkCandidates_level)+
qed

lemma findingsOfType_level:
  assumes "f \<in> set (findingsOfType env idx gvr)"
  shows "levelOf f = levelError \<or> levelOf f = levelWarning"
proof -
  from assms obtain child ownerRef where "f \<in> set (findingsOfRef env idx gvr child ownerRef)"
    by (auto simp: findingsOfType_def)
  then have some: "orderedChecks env idx child ownerRef \<noteq> None"
    by (cases "orderedChecks env idx child ownerRef") (simp_all add: findingsOfRef_def)
  then obtain level msg where c: "orderedChecks env idx child ownerRef = Some (level, msg)"
    by (cases "orderedChecks env idx child ownerRef") auto
  with \<open>f \<in> set (findingsOfRef env idx gvr child ownerRef)\<close>
  have "f = (gvr, child, ownerRef, level, msg)"
    by (simp add: findingsOfRef_def)
  then show ?thesis
    using orderedChecks_level [OF c] by (simp add: levelOf_def)
qed

lemma levels_differ: "levelError \<noteq> levelWarning"
  by (simp add: levelError_def levelWarning_def)

lemma filter_warnings:
  assumes "\<And>f. f \<in> set fs \<Longrightarrow> levelOf f = levelError \<or> levelOf f = levelWarning"
  shows "filter (\<lambda>f. levelOf f \<noteq> levelError) fs = filter (\<lambda>f. levelOf f = levelWarning) fs"
proof (rule filter_cong [OF refl])
  fix f
  assume "f \<in> set fs"
  then have "levelOf f = levelError \<or> levelOf f = levelWarning"
    by (rule assms)
  then show "(levelOf f \<noteq> levelError) = (levelOf f = levelWarning)"
    using levels_differ by auto
qed

lemma tableRefMessage_counts:
  "errorCount (tableRefMessage rep gvr child ownerRef level msg) =
     errorCount rep + (if level = levelError then 1 else 0)"
  "warningCount (tableRefMessage rep gvr child ownerRef level msg) =
     warningCount rep + (if level = levelError then 0 else 1)"
  by (simp_all add: tableRefMessage_def Let_def)

lemma emitAll_table_counts:
  "errorCount (emitAll tableRefMessage rep fs) =
     errorCount rep + length (filter (\<lambda>f. levelOf f = levelError) fs) \<and>
   warningCount (emitAll tableRefMessage rep fs) =
     warningCount rep + length (filter (\<lambda>f. levelOf f \<noteq> levelError) fs)"
proof (induction fs arbitrary: rep)
  case Nil
  show ?case by simp
next
  case (Cons f fs)
  obtain gvr child ownerRef level msg where f: "f = (gvr, child, ownerRef, level, msg)"
    by (cases f)
  have step: "emitAll tableRefMessage rep (f # fs) =
      emitAll tableRefMessage (tableRefMessage rep gvr child ownerRef level msg) fs"
    by (simp add: emitAll_def f)
  show ?case
    unfolding step
    using Cons.IH [of "tableRefMessage rep gvr child ownerRef level msg"]
    by (simp add: tableRefMessage_counts f levelOf_def)
qed

lemma flush_counts [simp]:
  "errorCount (flush rep) = errorCount rep" "warningCount (flush rep) = warningCount rep"
  by (simp_all add: flush_def)

lemma table_run_counts:
  "errorCount (foldl (\<lambda>r gvr. flush (emitAll tableRefMessage r (F gvr))) rep gvrs) =
     errorCount rep + length (filter (\<lambda>f. levelOf f = levelError) (concat (map F gvrs))) \<and>
   warningCount (foldl (\<lambda>r gvr. flush (emitAll tableRefMessage r (F gvr))) rep gvrs) =
     warningCount rep + length (filter (\<lambda>f. levelOf f \<noteq> levelError) (concat (map F gvrs)))"
proof (induction gvrs arbitrary: rep)
  case Nil
  show ?case by simp
next
  case (Cons gvr gvrs)
  show ?case
    using Cons.IH [of "flush (emitAll tableRefMessage rep (F gvr))"]
      emitAll_table_counts [of rep "F gvr"]
    by simp
qed

lemma table_counters:
  assumes run: "Run env v = Inr (idx, rep)" and table: "Output v = []"
    and types: "GroupVersionResources env = Inr gvrMap"
  shows "errorCount rep =
      length (filter (\<lambda>f. levelOf f = levelError)
                (concat (map (findingsOfType env idx) (sortedGVRs gvrMap)))) \<and>
    warningCount rep =
      length (filter (\<lambda>f. levelOf f = levelWarning)
                (concat (map (findingsOfType env idx) (sortedGVRs gvrMap)))) +
      card (dom (gvDiscoveryFailures idx)) +
      length (filter (\<lambda>gvr. listingError (ListPages env gvr) \<noteq> None) (sortedGVRs gvrMap))"
proof -
  let ?gvrs = "sortedGVRs gvrMap"
  let ?fs = "concat (map (findingsOfType env idx) ?gvrs)"
  from run obtain s gvrMap' where s: "discover env = Inr s"
    and g: "GroupVersionResources env = Inr gvrMap'"
    and idx: "idx = fst (fetchAll env (sortedGVRs gvrMap') s)"
    and rep: "rep = (checkAll (outputRefMessage v) env idx (sortedGVRs gvrMap')
              (snd (fetchAll env (sortedGVRs gvrMap') s)))
           \<lparr>stderr := stderr (checkAll (outputRefMessage v) env idx (sortedGVRs gvrMap')
                         (snd (fetchAll env (sortedGVRs gvrMap') s))) @
                       [summary (checkAll (outputRefMessage v) env idx (sortedGVRs gvrMap')
                         (snd (fetchAll env (sortedGVRs gvrMap') s)))]\<rparr>"
    by (rule Run_Inr)
  from g types have [simp]: "gvrMap' = gvrMap" by simp
  obtain idx0 rep0 where s0: "s = (idx0, rep0)" by (cases s)
  have sink: "outputRefMessage v = tableRefMessage"
    by (simp add: outputRefMessage_def table)
  have d: "warningCount rep0 = card (dom (gvDiscoveryFailures idx0))" "errorCount rep0 = 0"
    using discover_discovered [OF s] by (simp_all add: discovered_def s0)
  have gv: "gvDiscoveryFailures idx = gvDiscoveryFailures idx0"
    by (simp add: idx s0 fetchAll_gvDiscoveryFailures)
  let ?rep1 = "snd (fetchAll env ?gvrs (idx0, rep0))"
  have f: "warningCount ?rep1 =
      warningCount rep0 + length (filter (\<lambda>g. listingError (ListPages env g) \<noteq> None) ?gvrs)"
    "errorCount ?rep1 = errorCount rep0"
    by (simp_all add: fetchAll_report)
  have w: "filter (\<lambda>f. levelOf f \<noteq> levelError) ?fs = filter (\<lambda>f. levelOf f = levelWarning) ?fs"
    by (rule filter_warnings) (auto dest: findingsOfType_level)
  have counts: "errorCount rep = errorCount ?rep1 + length (filter (\<lambda>f. levelOf f = levelError) ?fs)"
    "warningCount rep = warningCount ?rep1 + length (filter (\<lambda>f. levelOf f \<noteq> levelError) ?fs)"
    using table_run_counts [of "findingsOfType env idx" ?rep1 ?gvrs]
    by (simp_all add: rep sink checkAll_emitAll s0)
  show ?thesis
    unfolding counts f d gv w by simp
qed

text \<open>
  C3, as stated, fails on the test case \<open>forbidden\<close> in tabular mode: the run emits one
  Warning finding (one row is written after the header) and ends with the warning
  counter at 2, the other warning being the failed listing.
\<close>

theorem C3_warning_counter_counterexample:
  "\<not> isl (Run forbiddenCluster \<lparr>Output = []\<rparr>) \<and>
   length (filter (\<lambda>f. levelOf f = levelWarning)
             (concat (map (findingsOfType forbiddenCluster
                             (fst (projr (Run forbiddenCluster \<lparr>Output = []\<rparr>))))
                        (sortedGVRs (map arGVR forbiddenResources))))) = 1 \<and>
   filter (\<lambda>e. e \<noteq> TabFlush) (stdout (snd (projr (Run forbiddenCluster \<lparr>Output = []\<rparr>)))) =
     [TabWrite tableHeader,
      TabWrite (join [[], ''pods'', ''ns1'', ''pod1'', ''forbiddenparentuid'', ''Warning'',
                      ''could not list parent resource forbiddenresources.forbidden''] tab @ nl)] \<and>
   warningCount (snd (projr (Run forbiddenCluster \<lparr>Output = []\<rparr>))) = 2"
  by code_simp

text \<open>
  C3, amended. In tabular mode, when \<open>Run\<close> returns nil the error counter is the number
  of Error findings handed to \<open>outputRefMessage\<close>, and the warning counter is the
  number of Warning findings handed to it, plus one for each group/version in
  \<open>gvDiscoveryFailures\<close>, plus one for each resource type whose listing failed.
\<close>

theorem C3_table_counters:
  assumes "Run env v = Inr (idx, rep)" and "Output v = []"
    and "GroupVersionResources env = Inr gvrMap"
  shows "errorCount rep =
      length (filter (\<lambda>f. levelOf f = levelError)
                (concat (map (findingsOfType env idx) (sortedGVRs gvrMap)))) \<and>
    warningCount rep =
      length (filter (\<lambda>f. levelOf f = levelWarning)
                (concat (map (findingsOfType env idx) (sortedGVRs gvrMap)))) +
      card (dom (gvDiscoveryFailures idx)) +
      length (filter (\<lambda>gvr. listingError (ListPages env gvr) \<noteq> None) (sortedGVRs gvrMap))"
  using assms by (rule table_counters)

theorem C3_table_counters_witness:
  "\<exists>idx rep.
     Run forbiddenCluster \<lparr>Output = []\<rparr> = Inr (idx, rep) \<and>
     errorCount rep =
       length (filter (\<lambda>f. levelOf f = levelError)
                 (concat (map (findingsOfType forbiddenCluster idx)
                            (sortedGVRs (map arGVR forbiddenResources))))) \<and>
     warningCount rep =
       length (filter (\<lambda>f. levelOf f = levelWarning)
                 (concat (map (findingsOfType forbiddenCluster idx)
                            (sortedGVRs (map arGVR forbiddenResources))))) +
       card (dom (gvDiscoveryFailures idx)) +
       length (filter (\<lambda>gvr. listingError (ListPages forbiddenCluster gvr) \<noteq> None)
                 (sortedGVRs (map arGVR forbiddenResources))) \<and>
     errorCount rep = 0 \<and> warningCount rep = 2"
proof -
  obtain idx rep where run: "Run forbiddenCluster \<lparr>Output = []\<rparr> = Inr (idx, rep)"
    and counts: "errorCount rep = 0" "warningCount rep = 2"
    using forbidden_run_counts by (auto split: sum.splits)
  have table: "Output \<lparr>Output = []\<rparr> = []"
    by simp
  from C3_table_counters [OF run table forbidden_discovery(1)] run counts
  show ?thesis by blast
qed

text \<open>
  The closure for \<open>v.Output == "json"\<close> leaves both counters alone: on the test case
  \<open>unavailable version\<close> it encodes one Error finding and the run ends with both
  counters at zero and the line \<open>No invalid ownerReferences found\<close>, where the tabular
  run ends with \<open>1 error, 0 warnings\<close>.
\<close>

lemma json_findings_not_counted:
  "\<not> isl (Run unavailableVersionCluster \<lparr>Output = ''json''\<rparr>) \<and>
   map irLevel
     (concat (map (\<lambda>e. case e of JSONEncode r \<Rightarrow> [r] | _ \<Rightarrow> [])
                (stdout (snd (projr (Run unavailableVersionCluster \<lparr>Output = ''json''\<rparr>)))))) =
     [''Error''] \<and>
   errorCount (snd (projr (Run unavailableVersionCluster \<lparr>Output = ''json''\<rparr>))) = 0 \<and>
   warningCount (snd (projr (Run unavailableVersionCluster \<lparr>Output = ''json''\<rparr>))) = 0 \<and>
   last (stderr (snd (projr (Run unavailableVersionCluster \<lparr>Output = ''json''\<rparr>)))) =
     ''No invalid ownerReferences found'' @ nl \<and>
   last (stderr (snd (projr (Run unavailableVersionCluster \<lparr>Output = []\<rparr>)))) =
     ''1 error, 0 warnings'' @ nl"
  by code_simp

subsection \<open>Failed listings\<close>

lemma discover_ListPages [simp]: "discover (env\<lparr>ListPages := pages\<rparr>) = discover env"
  by (simp add: discover_def cong: sum.case_cong)

lemma Run_Fatal_iff:
  "Run env v = Inl (Fatal e) \<longleftrightarrow>
     discover env = Inl e \<or> (\<exists>s. discover env = Inr s) \<and> GroupVersionResources env = Inl e"
proof (cases "discover env")
  case (Inl err)
  then show ?thesis by (simp add: Run_def)
next
  case (Inr s)
  show ?thesis
  proof (cases "GroupVersionResources env")
    case (Inl err)
    then show ?thesis by (simp add: Run_def Inr)
  next
    case inr: (Inr gvrMap)
    then show ?thesis
      by (simp add: Run_def Inr Let_def split: prod.splits)
  qed
qed

lemma Run_Fatal_ListPages:
  "(Run (env\<lparr>ListPages := pages\<rparr>) v = Inl (Fatal e)) = (Run env v = Inl (Fatal e))"
  by (simp add: Run_Fatal_iff)

lemma fetch_first_request_fails:
  assumes "ListPages env gvr = ListError err"
  shows "byGVR (fst (fetch env gvr (idx, rep))) = byGVR idx"
    and "byUID (fst (fetch env gvr (idx, rep))) = byUID idx"
  by (rule ext, simp add: fetch_index assms)+

text \<open>
  C7, as stated, fails when a later page of a listing fails: the first page of \<open>nodes\<close>
  delivers \<open>node1\<close>, the second request fails; the failure is recorded for \<open>nodes\<close>
  and \<open>node1\<close> is in both indexes when \<open>Run\<close> returns.
\<close>

theorem C7_later_page_counterexample:
  "listingError (ListPages expiredCluster nodes) = Some ''the continue token has expired'' \<and>
   \<not> isl (Run expiredCluster \<lparr>Output = []\<rparr>) \<and>
   grListErrors (fst (projr (Run expiredCluster \<lparr>Output = []\<rparr>)))
     \<lparr>grGroup = [], grResource = ''nodes''\<rparr> = Some ''the continue token has expired'' \<and>
   byGVR (fst (projr (Run expiredCluster \<lparr>Output = []\<rparr>))) nodes = [node1] \<and>
   byUID (fst (projr (Run expiredCluster \<lparr>Output = []\<rparr>))) ''node1uid'' = [node1]"
  by code_simp

text \<open>
  C7, amended. A listing that fails at any request records the error for the
  \<open>GroupResource\<close> of the type and adds one warning. When the first request fails no
  object is inserted into either index; in general the objects inserted for the type are
  those of the pages retrieved before the failure. The scan goes on: after the loop
  every type of the slice has the objects of its own retrieved pages, whatever happened
  to the other types, and the recorded failure is still there. Whether \<open>Run\<close> returns an
  error does not depend on what the listings answer.
\<close>

theorem C7_list_failure_recorded_scan_continues:
  "(listingError (ListPages env gvr) = Some err \<longrightarrow>
    grListErrors (fst (fetch env gvr (idx, rep))) (gvrGroupResource gvr) = Some err \<and>
    warningCount (snd (fetch env gvr (idx, rep))) = warningCount rep + 1) \<and>
   (ListPages env gvr = ListError err \<longrightarrow>
    byGVR (fst (fetch env gvr (idx, rep))) = byGVR idx \<and>
    byUID (fst (fetch env gvr (idx, rep))) = byUID idx) \<and>
   byGVR (fst (fetch env gvr (idx, rep))) gvr =
     byGVR idx gvr @ map (fillIn (KindFor env gvr)) (retrieved (ListPages env gvr)) \<and>
   (distinct gvrs \<and> other \<in> set gvrs \<longrightarrow>
    byGVR (fst (fetchAll env gvrs (idx, rep))) other =
      byGVR idx other @ map (fillIn (KindFor env other)) (retrieved (ListPages env other))) \<and>
   (gvr \<in> set gvrs \<and> listingError (ListPages env gvr) \<noteq> None \<longrightarrow>
    grListErrors (fst (fetchAll env gvrs (idx, rep))) (gvrGroupResource gvr) \<noteq> None) \<and>
   (Run (env\<lparr>ListPages := pages\<rparr>) v = Inl (Fatal e)) = (Run env v = Inl (Fatal e))"
proof (intro conjI impI)
  assume "listingError (ListPages env gvr) = Some err"
  then show "grListErrors (fst (fetch env gvr (idx, rep))) (gvrGroupResource gvr) = Some err"
    and "warningCount (snd (fetch env gvr (idx, rep))) = warningCount rep + 1"
    by (simp_all add: fetch_index fetch_report)
next
  assume "ListPages env gvr = ListError err"
  then show "byGVR (fst (fetch env gvr (idx, rep))) = byGVR idx"
    and "byUID (fst (fetch env gvr (idx, rep))) = byUID idx"
    by (rule fetch_first_request_fails)+
next
  show "byGVR (fst (fetch env gvr (idx, rep))) gvr =
     byGVR idx gvr @ map (fillIn (KindFor env gvr)) (retrieved (ListPages env gvr))"
    by (simp add: fetch_index)
next
  assume "distinct gvrs \<and> other \<in> set gvrs"
  then show "byGVR (fst (fetchAll env gvrs (idx, rep))) other =
      byGVR idx other @ map (fillIn (KindFor env other)) (retrieved (ListPages env other))"
    by (simp add: fetchAll_byGVR)
next
  assume "gvr \<in> set gvrs \<and> listingError (ListPages env gvr) \<noteq> None"
  then show "grListErrors (fst (fetchAll env gvrs (idx, rep))) (gvrGroupResource gvr) \<noteq> None"
    using fetchAll_grListErrors [of gvr gvrs env idx rep] by simp
next
  show "(Run (env\<lparr>ListPages := pages\<rparr>) v = Inl (Fatal e)) = (Run env v = Inl (Fatal e))"
    by (rule Run_Fatal_ListPages)
qed

lemma failed_listings:
  "listingError (ListPages expiredCluster nodes) = Some ''the continue token has expired''"
  "ListPages forbiddenCluster forbiddenGVR = ListError ''forbiddenresources is forbidden: not authorized''"
  "distinct [nodes, pods] \<and> pods \<in> set [nodes, pods]"
  "nodes \<in> set [nodes, pods] \<and> listingError (ListPages expiredCluster nodes) \<noteq> None"
  by code_simp+

theorem C7_list_failure_recorded_scan_continues_witness:
  "(grListErrors (fst (fetch expiredCluster nodes (emptyIndex, emptyReport))) (gvrGroupResource nodes) =
      Some ''the continue token has expired'' \<and>
    warningCount (snd (fetch expiredCluster nodes (emptyIndex, emptyReport))) =
      warningCount emptyReport + 1) \<and>
   (byGVR (fst (fetch forbiddenCluster forbiddenGVR (emptyIndex, emptyReport))) = byGVR emptyIndex \<and>
    byUID (fst (fetch forbiddenCluster forbiddenGVR (emptyIndex, emptyReport))) = byUID emptyIndex) \<and>
   byGVR (fst (fetchAll expiredCluster [nodes, pods] (emptyIndex, emptyReport))) pods =
     byGVR emptyIndex pods @
     map (fillIn (KindFor expiredCluster pods)) (retrieved (ListPages expiredCluster pods)) \<and>
   grListErrors (fst (fetchAll expiredCluster [nodes, pods] (emptyIndex, emptyReport)))
     (gvrGroupResource nodes) \<noteq> None"
proof (intro conjI)
  note one = C7_list_failure_recorded_scan_continues
    [where env = expiredCluster and gvr = nodes and idx = emptyIndex and rep = emptyReport
       and err = "''the continue token has expired''" and gvrs = "[nodes, pods]" and other = pods]
  from one [THEN conjunct1] failed_listings(1)
  have a: "grListErrors (fst (fetch expiredCluster nodes (emptyIndex, emptyReport))) (gvrGroupResource nodes) =
      Some ''the continue token has expired'' \<and>
    warningCount (snd (fetch expiredCluster nodes (emptyIndex, emptyReport))) =
      warningCount emptyReport + 1"
    by (rule mp)
  from a show "grListErrors (fst (fetch expiredCluster nodes (emptyIndex, emptyReport))) (gvrGroupResource nodes) =
      Some ''the continue token has expired''" ..
  from a show "warningCount (snd (fetch expiredCluster nodes (emptyIndex, emptyReport))) =
      warningCount emptyReport + 1" ..
  from C7_list_failure_recorded_scan_continues
    [where env = forbiddenCluster and gvr = forbiddenGVR and idx = emptyIndex and rep = emptyReport
       and err = "''forbiddenresources is forbidden: not authorized''",
     THEN conjunct2, THEN conjunct1] failed_listings(2)
  have b: "byGVR (fst (fetch forbiddenCluster forbiddenGVR (emptyIndex, emptyReport))) = byGVR emptyIndex \<and>
    byUID (fst (fetch forbiddenCluster forbiddenGVR (emptyIndex, emptyReport))) = byUID emptyIndex"
    by (rule mp)
  from b show "byGVR (fst (fetch forbiddenCluster forbiddenGVR (emptyIndex, emptyReport))) = byGVR emptyIndex" ..
  from b show "byUID (fst (fetch forbiddenCluster forbiddenGVR (emptyIndex, emptyReport))) = byUID emptyIndex" ..
  from one [THEN conjunct2, THEN conjunct2, THEN conjunct2, THEN conjunct1] failed_listings(3)
  show "byGVR (fst (fetchAll expiredCluster [nodes, pods] (emptyIndex, emptyReport))) pods =
     byGVR emptyIndex pods @
     map (fillIn (KindFor expiredCluster pods)) (retrieved (ListPages expiredCluster pods))"
    by (rule mp)
  from one [THEN conjunct2, THEN conjunct2, THEN conjunct2, THEN conjunct2, THEN conjunct1]
    failed_listings(4)
  show "grListErrors (fst (fetchAll expiredCluster [nodes, pods] (emptyIndex, emptyReport)))
     (gvrGroupResource nodes) \<noteq> None"
    by (rule mp)
qed

end
